theory Spec2Isabelle
  imports Main "HOL-Library.Sublist" "HOL-Library.AList"
begin

section \<open>Data model\<close>

text \<open>
  The module \<^verbatim>\<open>partial_program.py\<close> works on Python objects. The embedding keeps
  the classes the module tests with \<^verbatim>\<open>isinstance\<close>: the dygraph tensor
  \<^verbatim>\<open>core.VarBase\<close>, the static \<^verbatim>\<open>framework.Variable\<close> (with its subclass
  \<^verbatim>\<open>framework.Parameter\<close>), \<^verbatim>\<open>np.ndarray\<close>, tuples, lists, dicts and
  \<^verbatim>\<open>None\<close>. Every other object is an opaque leaf.
  Tensor elements have an arbitrary type \<open>'e\<close>; floating-point rounding is not modelled.
\<close>

datatype error =
    AssertionError
  | TypeError "nat option"
  | ValueError string
  | IndexError
  | KeyError
  | AttributeError
  | ArityError
  | ExecutionError string

text \<open>\<^verbatim>\<open>TypeError\<close> and \<^verbatim>\<open>ValueError\<close> carry the value their message is formatted
  with: the position of the offending entry of the parameters (empty when the
  parameters themselves are neither list nor tuple), and the name of the variable.\<close>

text \<open>The descriptor of a static Variable: \<^verbatim>\<open>var.desc\<close> with name, dtype, shape and
  storage kind; \<open>is_parameter\<close> tells an instance of \<^verbatim>\<open>framework.Parameter\<close>.\<close>

record variable =
  var_name :: string
  var_dtype :: string
  var_shape :: "int list"
  var_type :: string
  var_persistable :: bool
  is_parameter :: bool

text \<open>A runtime tensor \<^verbatim>\<open>core.VarBase\<close>. \<open>vb_data\<close> is what \<^verbatim>\<open>numpy()\<close> returns,
  flattened; a tensor that holds no memory yet has no data.\<close>

record 'e varbase =
  vb_name :: string
  vb_dtype :: string
  vb_shape :: "int list"
  vb_type :: string
  vb_persistable :: bool
  stop_gradient :: bool
  vb_data :: "'e list"
  grad_type :: string

record 'e ndarray =
  nd_dtype :: string
  nd_shape :: "int list"
  nd_data :: "'e list"

datatype seq_kind = Tuple | List

datatype pykey = KStr string | KInt int

datatype 'e pyval =
    PyNone
  | VarBase "'e varbase"
  | Variable variable
  | NdArray "'e ndarray"
  | Opaque string
  | PySeq seq_kind "'e pyval list"
  | PyDict "(pykey \<times> 'e pyval) list"

section \<open>Nested structures: flatten and pack\<close>

text \<open>
  \<^verbatim>\<open>flatten\<close> and \<^verbatim>\<open>pack_sequence_as\<close> are imported from
  \<^verbatim>\<open>paddle.fluid.layers.utils\<close>; the module relies on their contract only. Tuples,
  lists and dicts are the containers, everything else is a leaf.
\<close>

fun is_sequence :: "'e pyval \<Rightarrow> bool" where
  "is_sequence (PySeq k xs) = True"
| "is_sequence (PyDict kvs) = True"
| "is_sequence v = False"

text \<open>Modelled from the spec: \<^verbatim>\<open>flatten\<close> of \<^verbatim>\<open>paddle.fluid.layers.utils\<close> is
  missing. It is the deterministic depth-first traversal of the structure; the leaves
  come in insertion order, and a value that is no container flattens to itself alone.\<close>

fun flatten :: "'e pyval \<Rightarrow> 'e pyval list"
  and flatten_items :: "'e pyval list \<Rightarrow> 'e pyval list"
  and flatten_entries :: "(pykey \<times> 'e pyval) list \<Rightarrow> 'e pyval list" where
  "flatten (PySeq k xs) = flatten_items xs"
| "flatten (PyDict kvs) = flatten_entries kvs"
| "flatten PyNone = [PyNone]"
| "flatten (VarBase v) = [VarBase v]"
| "flatten (Variable v) = [Variable v]"
| "flatten (NdArray a) = [NdArray a]"
| "flatten (Opaque s) = [Opaque s]"
| "flatten_items [] = []"
| "flatten_items (x # xs) = flatten x @ flatten_items xs"
| "flatten_entries [] = []"
| "flatten_entries (kv # kvs) = flatten (snd kv) @ flatten_entries kvs"

text \<open>Positional refill of a template: every leaf takes the next value of the list and
  the containers are rebuilt with their kind and keys. The result carries the values
  not yet used; \<open>None\<close> when the values run out.\<close>

fun repack :: "'e pyval \<Rightarrow> 'e pyval list \<Rightarrow> ('e pyval \<times> 'e pyval list) option"
  and repack_items :: "'e pyval list \<Rightarrow> 'e pyval list \<Rightarrow> ('e pyval list \<times> 'e pyval list) option"
  and repack_entries :: "(pykey \<times> 'e pyval) list \<Rightarrow> 'e pyval list
      \<Rightarrow> ((pykey \<times> 'e pyval) list \<times> 'e pyval list) option" where
  "repack (PySeq k xs) vs =
     (case repack_items xs vs of None \<Rightarrow> None | Some (ys, r) \<Rightarrow> Some (PySeq k ys, r))"
| "repack (PyDict kvs) vs =
     (case repack_entries kvs vs of None \<Rightarrow> None | Some (ys, r) \<Rightarrow> Some (PyDict ys, r))"
| "repack PyNone vs = (case vs of [] \<Rightarrow> None | v # r \<Rightarrow> Some (v, r))"
| "repack (VarBase x) vs = (case vs of [] \<Rightarrow> None | v # r \<Rightarrow> Some (v, r))"
| "repack (Variable x) vs = (case vs of [] \<Rightarrow> None | v # r \<Rightarrow> Some (v, r))"
| "repack (NdArray x) vs = (case vs of [] \<Rightarrow> None | v # r \<Rightarrow> Some (v, r))"
| "repack (Opaque x) vs = (case vs of [] \<Rightarrow> None | v # r \<Rightarrow> Some (v, r))"
| "repack_items [] vs = Some ([], vs)"
| "repack_items (x # xs) vs =
     (case repack x vs of None \<Rightarrow> None
      | Some (y, r) \<Rightarrow>
          (case repack_items xs r of None \<Rightarrow> None | Some (ys, r') \<Rightarrow> Some (y # ys, r')))"
| "repack_entries [] vs = Some ([], vs)"
| "repack_entries (kv # kvs) vs =
     (case repack (snd kv) vs of None \<Rightarrow> None
      | Some (y, r) \<Rightarrow>
          (case repack_entries kvs r of None \<Rightarrow> None
           | Some (ys, r') \<Rightarrow> Some ((fst kv, y) # ys, r')))"

text \<open>Modelled from the spec: \<^verbatim>\<open>pack_sequence_as\<close> of \<^verbatim>\<open>paddle.fluid.layers.utils\<close>
  is missing. It fails with an arity error when the number of values differs from the
  number of leaves of the template, and otherwise rebuilds a structure isomorphic to
  the template with the leaves replaced positionally.\<close>

definition pack_sequence_as :: "'e pyval \<Rightarrow> 'e pyval list \<Rightarrow> error + 'e pyval" where
  "pack_sequence_as structure flat_sequence =
     (if length flat_sequence \<noteq> length (flatten structure) then Inl ArityError
      else (case repack structure flat_sequence of
              None \<Rightarrow> Inl ArityError
            | Some (packed, r) \<Rightarrow> Inr packed))"

text \<open>Two structures are isomorphic when they have the same containers, of the same
  kind, length and keys, and leaves at the same places.\<close>

fun same_shape :: "'e pyval \<Rightarrow> 'e pyval \<Rightarrow> bool"
  and same_shape_items :: "'e pyval list \<Rightarrow> 'e pyval list \<Rightarrow> bool"
  and same_shape_entries :: "(pykey \<times> 'e pyval) list \<Rightarrow> (pykey \<times> 'e pyval) list \<Rightarrow> bool" where
  "same_shape (PySeq k xs) b =
     (case b of PySeq k' ys \<Rightarrow> k = k' \<and> same_shape_items xs ys | _ \<Rightarrow> False)"
| "same_shape (PyDict kvs) b =
     (case b of PyDict kvs' \<Rightarrow> same_shape_entries kvs kvs' | _ \<Rightarrow> False)"
| "same_shape PyNone b = (\<not> is_sequence b)"
| "same_shape (VarBase x) b = (\<not> is_sequence b)"
| "same_shape (Variable x) b = (\<not> is_sequence b)"
| "same_shape (NdArray x) b = (\<not> is_sequence b)"
| "same_shape (Opaque x) b = (\<not> is_sequence b)"
| "same_shape_items [] ys = (ys = [])"
| "same_shape_items (x # xs) ys =
     (case ys of [] \<Rightarrow> False | y # ys' \<Rightarrow> same_shape x y \<and> same_shape_items xs ys')"
| "same_shape_entries [] ys = (ys = [])"
| "same_shape_entries (kv # kvs) ys =
     (case ys of [] \<Rightarrow> False
      | kv' # ys' \<Rightarrow> fst kv = fst kv' \<and> same_shape (snd kv) (snd kv') \<and> same_shape_entries kvs ys')"

text \<open>The values that sit in a structure at the leaf places of a template, in order;
  \<open>None\<close> when the structure has not the containers of the template (their kind,
  length and keys).\<close>

fun values_at :: "'e pyval \<Rightarrow> 'e pyval \<Rightarrow> 'e pyval list option"
  and values_at_items :: "'e pyval list \<Rightarrow> 'e pyval list \<Rightarrow> 'e pyval list option"
  and values_at_entries ::
    "(pykey \<times> 'e pyval) list \<Rightarrow> (pykey \<times> 'e pyval) list \<Rightarrow> 'e pyval list option" where
  "values_at (PySeq k xs) b =
     (case b of PySeq k' ys \<Rightarrow> if k = k' then values_at_items xs ys else None | _ \<Rightarrow> None)"
| "values_at (PyDict kvs) b =
     (case b of PyDict kvs' \<Rightarrow> values_at_entries kvs kvs' | _ \<Rightarrow> None)"
| "values_at PyNone b = Some [b]"
| "values_at (VarBase x) b = Some [b]"
| "values_at (Variable x) b = Some [b]"
| "values_at (NdArray x) b = Some [b]"
| "values_at (Opaque x) b = Some [b]"
| "values_at_items [] ys = (if ys = [] then Some [] else None)"
| "values_at_items (x # xs) ys =
     (case ys of
        [] \<Rightarrow> None
      | y # ys' \<Rightarrow>
          (case values_at x y of
             None \<Rightarrow> None
           | Some a \<Rightarrow>
               (case values_at_items xs ys' of None \<Rightarrow> None | Some b \<Rightarrow> Some (a @ b))))"
| "values_at_entries [] ys = (if ys = [] then Some [] else None)"
| "values_at_entries (kv # kvs) ys =
     (case ys of
        [] \<Rightarrow> None
      | kv' # ys' \<Rightarrow>
          if fst kv = fst kv'
          then (case values_at (snd kv) (snd kv') of
                  None \<Rightarrow> None
                | Some a \<Rightarrow>
                    (case values_at_entries kvs ys' of None \<Rightarrow> None | Some b \<Rightarrow> Some (a @ b)))
          else None)"

section \<open>NestSequence\<close>

text \<open>The wrapper keeps the raw structure and the positions, in the flattened list, of
  the leaves that are tensors (\<^verbatim>\<open>framework.Variable\<close> or \<^verbatim>\<open>core.VarBase\<close>). The
  warning of \<^verbatim>\<open>_check_non_variable\<close> is logged and changes nothing; it is left out.\<close>

record 'e nest_sequence =
  raw_input :: "'e pyval"
  var_ids :: "nat list"

definition is_var :: "'e pyval \<Rightarrow> bool" where
  "is_var v = (case v of Variable x \<Rightarrow> True | VarBase x \<Rightarrow> True | _ \<Rightarrow> False)"

definition get_var_ids :: "'e pyval \<Rightarrow> nat list" where
  "get_var_ids raw =
     map fst (filter (\<lambda>(idx, var). is_var var) (enumerate 0 (flatten raw)))"

definition NestSequence :: "'e pyval \<Rightarrow> 'e nest_sequence" where
  "NestSequence raw = \<lparr>raw_input = raw, var_ids = get_var_ids raw\<rparr>"

definition tolist :: "'e nest_sequence \<Rightarrow> 'e pyval list" where
  "tolist self = flatten (raw_input self)"

text \<open>\<^verbatim>\<open>restore\<close>: the assertion on the lengths, then \<^verbatim>\<open>pack_sequence_as\<close>.\<close>

definition restore :: "'e nest_sequence \<Rightarrow> 'e pyval list \<Rightarrow> error + 'e pyval" where
  "restore self value_list =
     (if length (tolist self) = length value_list
      then pack_sequence_as (raw_input self) value_list
      else Inl AssertionError)"

text \<open>\<^verbatim>\<open>__getitem__\<close>: \<^verbatim>\<open>self.tolist()[item]\<close>, an \<^verbatim>\<open>IndexError\<close> out of range.\<close>

definition getitem :: "'e nest_sequence \<Rightarrow> nat \<Rightarrow> error + 'e pyval" where
  "getitem self item =
     (if item < length (tolist self) then Inr (tolist self ! item) else Inl IndexError)"

section \<open>Programs\<close>

text \<open>A program is an ordered collection of blocks, each with its operators and its
  mapping from names to variables, in insertion order. A program always has its global
  block, block 0.\<close>

datatype attr = ABool bool | AOther string

record operator =
  op_type :: string
  input_arg_names :: "string list"
  output_arg_names :: "string list"
  op_attrs :: "(string \<times> attr) list"

record block =
  ops :: "operator list"
  vars :: "(string \<times> variable) list"

record program =
  global_block :: block
  sub_blocks :: "block list"

definition blocks :: "program \<Rightarrow> block list" where
  "blocks p = global_block p # sub_blocks p"

text \<open>What the module reads and writes on these objects: \<^verbatim>\<open>op.has_attr\<close>,
  \<^verbatim>\<open>op._set_attr\<close>, \<^verbatim>\<open>desc.block(0).op_size()\<close> and
  \<^verbatim>\<open>desc.block(0).find_var\<close>, which answers \<^verbatim>\<open>None\<close> for an absent name.\<close>

definition has_attr :: "operator \<Rightarrow> string \<Rightarrow> bool" where
  "has_attr op name = (map_of (op_attrs op) name \<noteq> None)"

definition set_attr :: "operator \<Rightarrow> string \<Rightarrow> attr \<Rightarrow> operator" where
  "set_attr op name val = op\<lparr>op_attrs := AList.update name val (op_attrs op)\<rparr>"

definition op_size :: "block \<Rightarrow> nat" where
  "op_size b = length (ops b)"

definition find_var :: "block \<Rightarrow> string \<Rightarrow> variable option" where
  "find_var b name = map_of (vars b) name"

text \<open>\<^verbatim>\<open>_change_is_test_status\<close>: every operator that has the attribute
  \<^verbatim>\<open>is_test\<close> gets it set.\<close>

definition change_op_is_test :: "bool \<Rightarrow> operator \<Rightarrow> operator" where
  "change_op_is_test is_test op =
     (if has_attr op ''is_test'' then set_attr op ''is_test'' (ABool is_test) else op)"

definition change_block_is_test :: "bool \<Rightarrow> block \<Rightarrow> block" where
  "change_block_is_test is_test b = b\<lparr>ops := map (change_op_is_test is_test) (ops b)\<rparr>"

definition change_is_test_status :: "program \<Rightarrow> bool \<Rightarrow> program" where
  "change_is_test_status p is_test =
     p\<lparr>global_block := change_block_is_test is_test (global_block p),
       sub_blocks := map (change_block_is_test is_test) (sub_blocks p)\<rparr>"

text \<open>Modelled from the spec: \<^verbatim>\<open>Program.clone\<close> of \<^verbatim>\<open>framework\<close> is missing. Without
  \<^verbatim>\<open>for_test\<close> it is a full duplicate of the graph; with \<^verbatim>\<open>for_test=True\<close> it is a
  full duplicate with \<^verbatim>\<open>is_test\<close> forced true on every operator that declares that
  attribute, all other attributes and the operator list unchanged.\<close>

definition clone :: "program \<Rightarrow> bool \<Rightarrow> program" where
  "clone p for_test =
     (if for_test
      then p\<lparr>global_block :=
               (global_block p)\<lparr>ops := map (\<lambda>op. if has_attr op ''is_test''
                                                then set_attr op ''is_test'' (ABool True) else op)
                                         (ops (global_block p))\<rparr>,
             sub_blocks :=
               map (\<lambda>b. b\<lparr>ops := map (\<lambda>op. if has_attr op ''is_test''
                                            then set_attr op ''is_test'' (ABool True) else op)
                                     (ops b)\<rparr>)
                   (sub_blocks p)\<rparr>
      else p)"

section \<open>Collaborators\<close>

text \<open>The arguments of the \<^verbatim>\<open>run_program\<close> operator that \<^verbatim>\<open>forward\<close> hands to the
  tracer.\<close>

record 'e run_program_args =
  X :: "'e varbase list"
  Params :: "'e varbase list"
  Out :: "'e varbase list"
  OutScope :: "'e varbase"
  DOut :: "'e varbase list"
  arg_global_block :: block
  start_op_index :: nat
  end_op_index :: nat
  is_test :: bool

text \<open>
  What the module calls and does not define is a parameter of the model:
  \<^item> \<open>MAGIC_NUM\<close>: the constant \<^verbatim>\<open>RETURN_NO_VALUE_MAGIC_NUM\<close>;
  \<^item> \<open>grad_var_suffix\<close>: \<^verbatim>\<open>core.grad_var_suffix()\<close>;
  \<^item> \<open>block_var\<close>: \<^verbatim>\<open>Block.var(name)\<close>, which may raise;
  \<^item> \<open>gradients\<close>: \<^verbatim>\<open>backward.gradients(targets, inputs=[])\<close>, which appends the
    backward operators to the program of its targets, and may raise;
  \<^item> \<open>trace_op\<close>: the interpreter. It writes the output tensors in place: its result
    gives, for every position of \<^verbatim>\<open>out_vars\<close>, the tensor after the run;
  \<^item> \<open>object_len\<close>, \<open>object_getitem0\<close>: \<^verbatim>\<open>len(v)\<close> and \<^verbatim>\<open>v[0]\<close> for a value
    \<open>v\<close> that is neither tuple, list nor dict.
\<close>

record 'e collaborators =
  MAGIC_NUM :: 'e
  grad_var_suffix :: string
  block_var :: "block \<Rightarrow> string \<Rightarrow> error + variable"
  gradients :: "program \<Rightarrow> variable list \<Rightarrow> error + program"
  trace_op :: "'e run_program_args \<Rightarrow> error + (nat \<Rightarrow> 'e varbase)"
  object_len :: "'e pyval \<Rightarrow> error + nat"
  object_getitem0 :: "'e pyval \<Rightarrow> error + 'e pyval"

section \<open>PartialProgramLayer\<close>

text \<open>
  The attributes of an instance. \<open>infer_program_attr\<close> and \<open>train_program_attr\<close> are
  the entries \<^verbatim>\<open>_infer_program\<close> and \<^verbatim>\<open>_train_program\<close> of the instance's own
  dictionary, absent until \<^verbatim>\<open>LazyInitialized.__get__\<close> sets them.
  \<open>infer_builds\<close> and \<open>train_builds\<close> are bookkeeping and no attribute of the source:
  they count the times the function under each \<^verbatim>\<open>LazyInitialized\<close> has returned.
\<close>

record 'e layer =
  inputs :: "'e nest_sequence"
  outputs :: "'e nest_sequence"
  params :: "'e varbase list"
  origin_main_program :: program
  double_grads :: "'e varbase list"
  training :: bool
  infer_program_attr :: "program option"
  train_program_attr :: "program option"
  infer_builds :: nat
  train_builds :: nat

subsection \<open>Checking and pruning the parameters\<close>

text \<open>The first loop of \<^verbatim>\<open>_check_params_all_inited\<close>: the names of the parameters,
  a \<^verbatim>\<open>TypeError\<close> at the first entry that is no \<^verbatim>\<open>VarBase\<close>.\<close>

fun collect_names :: "nat \<Rightarrow> 'e pyval list \<Rightarrow> error + string list" where
  "collect_names i [] = Inr []"
| "collect_names i (var # rest) =
     (case var of
        VarBase v \<Rightarrow>
          (case collect_names (Suc i) rest of
             Inl e \<Rightarrow> Inl e
           | Inr names \<Rightarrow> Inr (vb_name v # names))
      | _ \<Rightarrow> Inl (TypeError (Some i)))"

text \<open>The second loop: a \<^verbatim>\<open>ValueError\<close> at the first \<^verbatim>\<open>framework.Parameter\<close> of a
  block whose name is not among the names collected.\<close>

fun check_vars :: "string list \<Rightarrow> (string \<times> variable) list \<Rightarrow> error + unit" where
  "check_vars names [] = Inr ()"
| "check_vars names ((name, var) # rest) =
     (if is_parameter var \<and> name \<notin> set names then Inl (ValueError name)
      else check_vars names rest)"

fun check_blocks :: "string list \<Rightarrow> block list \<Rightarrow> error + unit" where
  "check_blocks names [] = Inr ()"
| "check_blocks names (b # bs) =
     (case check_vars names (vars b) of
        Inl e \<Rightarrow> Inl e
      | Inr u \<Rightarrow> check_blocks names bs)"

definition check_params_all_inited :: "'e pyval \<Rightarrow> program \<Rightarrow> error + unit" where
  "check_params_all_inited self_params main_program =
     (case self_params of
        PySeq k entries \<Rightarrow>
          (case collect_names 0 entries of
             Inl e \<Rightarrow> Inl e
           | Inr names \<Rightarrow> check_blocks names (blocks main_program))
      | _ \<Rightarrow> Inl (TypeError None))"

text \<open>\<^verbatim>\<open>_prune_unused_params\<close>: the two inner loops stop at the first operator that
  has the name among its input or output arguments.\<close>

fun found_in_ops :: "string \<Rightarrow> operator list \<Rightarrow> bool" where
  "found_in_ops name [] = False"
| "found_in_ops name (op # rest) =
     (if name \<in> set (input_arg_names op) \<or> name \<in> set (output_arg_names op) then True
      else found_in_ops name rest)"

fun found_in_blocks :: "string \<Rightarrow> block list \<Rightarrow> bool" where
  "found_in_blocks name [] = False"
| "found_in_blocks name (b # bs) =
     (if found_in_ops name (ops b) then True else found_in_blocks name bs)"

fun prune_unused_params :: "'e varbase list \<Rightarrow> program \<Rightarrow> 'e varbase list" where
  "prune_unused_params [] program = []"
| "prune_unused_params (param # rest) program =
     (if found_in_blocks (vb_name param) (blocks program)
      then param # prune_unused_params rest program
      else prune_unused_params rest program)"

text \<open>The entries of the parameters as tensors; after the check every entry is one.\<close>

fun the_varbases :: "'e pyval \<Rightarrow> 'e varbase list" where
  "the_varbases (PySeq k entries) =
     concat (map (\<lambda>v. case v of VarBase x \<Rightarrow> [x] | _ \<Rightarrow> []) entries)"
| "the_varbases v = []"

text \<open>\<^verbatim>\<open>_verify_program\<close>: the check, then the pruning; the result is the new value
  of \<^verbatim>\<open>self._params\<close> (the program itself is returned as it is).\<close>

definition verify_program :: "'e pyval \<Rightarrow> program \<Rightarrow> error + 'e varbase list" where
  "verify_program self_params main_program =
     (case check_params_all_inited self_params main_program of
        Inl e \<Rightarrow> Inl e
      | Inr u \<Rightarrow> Inr (prune_unused_params (the_varbases self_params) main_program))"

subsection \<open>Construction\<close>

text \<open>An empty tensor made from a variable's descriptor:
  \<^verbatim>\<open>core.VarBase(dtype, shape, name, type, False)\<close>.\<close>

definition empty_varbase :: "variable \<Rightarrow> 'e varbase" where
  "empty_varbase d =
     \<lparr>vb_name = var_name d, vb_dtype = var_dtype d, vb_shape = var_shape d,
      vb_type = var_type d, vb_persistable = False, stop_gradient = False,
      vb_data = [], grad_type = var_type d\<rparr>"

fun is_substr :: "string \<Rightarrow> string \<Rightarrow> bool" where
  "is_substr s [] = (s = [])"
| "is_substr s (c # cs) = (prefix s (c # cs) \<or> is_substr s cs)"

definition get_double_grads :: "program \<Rightarrow> 'e varbase list" where
  "get_double_grads program =
     concat (map (\<lambda>b. map (\<lambda>(name, var). empty_varbase var)
                        (filter (\<lambda>(name, var). is_substr ''@GRAD'' name) (vars b)))
                 (blocks program))"

text \<open>\<^verbatim>\<open>__init__\<close>; \<^verbatim>\<open>parameters\<close> defaults to \<^verbatim>\<open>None\<close>, which stands for the
  empty list.\<close>

definition init :: "program \<Rightarrow> 'e pyval \<Rightarrow> 'e pyval \<Rightarrow> 'e pyval \<Rightarrow> error + 'e layer" where
  "init main_program ins outs parameters =
     (case verify_program (if parameters \<noteq> PyNone then parameters else PySeq List [])
             main_program of
        Inl e \<Rightarrow> Inl e
      | Inr required_params \<Rightarrow>
          Inr \<lparr>inputs = NestSequence ins, outputs = NestSequence outs,
               params = required_params, origin_main_program = main_program,
               double_grads = get_double_grads main_program, training = True,
               infer_program_attr = None, train_program_attr = None,
               infer_builds = 0, train_builds = 0\<rparr>)"

subsection \<open>The two program variants\<close>

text \<open>\<^verbatim>\<open>_clone_for_test\<close>.\<close>

definition clone_for_test :: "program \<Rightarrow> program" where
  "clone_for_test main_program = clone main_program True"

text \<open>The loop of \<^verbatim>\<open>_append_backward_desc\<close> that collects the targets: for every
  flattened output that is a \<^verbatim>\<open>framework.Variable\<close>, the variable of that name in the
  global block of the cloned program.\<close>

fun collect_targets ::
  "'e collaborators \<Rightarrow> program \<Rightarrow> 'e pyval list \<Rightarrow> error + variable list" where
  "collect_targets env program [] = Inr []"
| "collect_targets env program (out # rest) =
     (case out of
        Variable v \<Rightarrow>
          (case block_var env (global_block program) (var_name v) of
             Inl e \<Rightarrow> Inl e
           | Inr t \<Rightarrow>
               (case collect_targets env program rest of
                  Inl e \<Rightarrow> Inl e
                | Inr ts \<Rightarrow> Inr (t # ts)))
      | _ \<Rightarrow> collect_targets env program rest)"

definition append_backward_desc ::
  "'e collaborators \<Rightarrow> 'e layer \<Rightarrow> program \<Rightarrow> error + program" where
  "append_backward_desc env self main_program =
     (let program = change_is_test_status (clone main_program False) False in
      case collect_targets env program (tolist (outputs self)) of
        Inl e \<Rightarrow> Inl e
      | Inr targets \<Rightarrow>
          if targets \<noteq> [] \<and> params self \<noteq> [] then gradients env program targets
          else Inr program)"

text \<open>\<^verbatim>\<open>_set_grad_type\<close>: a parameter whose gradient variable is found in block 0 of
  the training program takes its storage kind; the others stay as they are.\<close>

definition set_grad_type ::
  "'e collaborators \<Rightarrow> 'e varbase list \<Rightarrow> program \<Rightarrow> 'e varbase list" where
  "set_grad_type env ps train_program =
     map (\<lambda>param.
            case find_var (global_block train_program) (vb_name param @ grad_var_suffix env) of
              None \<Rightarrow> param
            | Some grad_var \<Rightarrow> param\<lparr>grad_type := var_type grad_var\<rparr>)
         ps"

text \<open>The functions under the two \<^verbatim>\<open>LazyInitialized\<close> descriptors. Each returns its
  value and the instance as it leaves it.\<close>

definition infer_program_function ::
  "'e collaborators \<Rightarrow> 'e layer \<Rightarrow> error + (program \<times> 'e layer)" where
  "infer_program_function env self =
     Inr (clone_for_test (origin_main_program self),
          self\<lparr>infer_builds := Suc (infer_builds self)\<rparr>)"

definition train_program_function ::
  "'e collaborators \<Rightarrow> 'e layer \<Rightarrow> error + (program \<times> 'e layer)" where
  "train_program_function env self =
     (case append_backward_desc env self (origin_main_program self) of
        Inl e \<Rightarrow> Inl e
      | Inr train_program \<Rightarrow>
          Inr (train_program,
               self\<lparr>params := set_grad_type env (params self) train_program,
                    train_builds := Suc (train_builds self)\<rparr>))"

text \<open>\<^verbatim>\<open>LazyInitialized.__get__\<close>: call the function, store the value on the instance
  under the function's name, return it. When the function raises nothing is stored.\<close>

definition LazyInitialized_get ::
  "('s \<Rightarrow> error + ('v \<times> 's)) \<Rightarrow> ('v \<Rightarrow> 's \<Rightarrow> 's) \<Rightarrow> 's \<Rightarrow> error + ('v \<times> 's)" where
  "LazyInitialized_get function setattr instance =
     (case function instance of
        Inl e \<Rightarrow> Inl e
      | Inr (val, instance') \<Rightarrow> Inr (val, setattr val instance'))"

text \<open>Reading the attribute. \<^verbatim>\<open>LazyInitialized\<close> defines \<^verbatim>\<open>__get__\<close> only, so an
  entry of the instance's own dictionary comes first and the descriptor is asked only
  when there is none.\<close>

definition get_infer_program ::
  "'e collaborators \<Rightarrow> 'e layer \<Rightarrow> error + (program \<times> 'e layer)" where
  "get_infer_program env self =
     (case infer_program_attr self of
        Some val \<Rightarrow> Inr (val, self)
      | None \<Rightarrow>
          LazyInitialized_get (infer_program_function env)
            (\<lambda>val s. s\<lparr>infer_program_attr := Some val\<rparr>) self)"

definition get_train_program ::
  "'e collaborators \<Rightarrow> 'e layer \<Rightarrow> error + (program \<times> 'e layer)" where
  "get_train_program env self =
     (case train_program_attr self of
        Some val \<Rightarrow> Inr (val, self)
      | None \<Rightarrow>
          LazyInitialized_get (train_program_function env)
            (\<lambda>val s. s\<lparr>train_program_attr := Some val\<rparr>) self)"

text \<open>The property \<^verbatim>\<open>program\<close>.\<close>

definition get_program ::
  "'e collaborators \<Rightarrow> 'e layer \<Rightarrow> error + (program \<times> 'e layer)" where
  "get_program env self =
     (if training self then get_train_program env self else get_infer_program env self)"

subsection \<open>Preparing a call\<close>

text \<open>\<^verbatim>\<open>self._inputs[i].desc.name()\<close>: only a \<^verbatim>\<open>framework.Variable\<close> has a
  descriptor.\<close>

definition input_desc_name :: "'e layer \<Rightarrow> nat \<Rightarrow> error + string" where
  "input_desc_name self i =
     (case getitem (inputs self) i of
        Inl e \<Rightarrow> Inl e
      | Inr (Variable v) \<Rightarrow> Inr (var_name v)
      | Inr _ \<Rightarrow> Inl AttributeError)"

text \<open>Modelled from the spec: the constructor \<^verbatim>\<open>core.VarBase(value=..., name=...)\<close> and
  \<^verbatim>\<open>paddle.to_tensor\<close> are missing. Raw array data is wrapped into a tensor bound to
  the given name, with no gradient tracking; a tensor that requires no gradient is
  bound anew to the name.\<close>

definition varbase_of_ndarray :: "'e ndarray \<Rightarrow> string \<Rightarrow> 'e varbase" where
  "varbase_of_ndarray a name =
     \<lparr>vb_name = name, vb_dtype = nd_dtype a, vb_shape = nd_shape a, vb_type = ''LOD_TENSOR'',
      vb_persistable = False, stop_gradient = True, vb_data = nd_data a,
      grad_type = ''LOD_TENSOR''\<rparr>"

definition to_tensor :: "'e varbase \<Rightarrow> 'e varbase" where
  "to_tensor v = v\<lparr>stop_gradient := True\<rparr>"

text \<open>The first loop of \<^verbatim>\<open>_prepare\<close>, from position \<open>i\<close> of the flattened inputs.\<close>

fun prepare_inputs :: "'e layer \<Rightarrow> nat \<Rightarrow> 'e pyval list \<Rightarrow> error + 'e varbase list" where
  "prepare_inputs self i [] = Inr []"
| "prepare_inputs self i (value # rest) =
     (case value of
        NdArray a \<Rightarrow>
          (case input_desc_name self i of
             Inl e \<Rightarrow> Inl e
           | Inr name \<Rightarrow>
               (case prepare_inputs self (Suc i) rest of
                  Inl e \<Rightarrow> Inl e
                | Inr input_vars \<Rightarrow> Inr (varbase_of_ndarray a name # input_vars)))
      | VarBase v \<Rightarrow>
          (case input_desc_name self i of
             Inl e \<Rightarrow> Inl e
           | Inr name \<Rightarrow>
               (case prepare_inputs self (Suc i) rest of
                  Inl e \<Rightarrow> Inl e
                | Inr input_vars \<Rightarrow>
                    Inr ((if stop_gradient v then to_tensor v else v)\<lparr>vb_name := name\<rparr>
                         # input_vars)))
      | _ \<Rightarrow> prepare_inputs self (Suc i) rest)"

text \<open>The second loop: one empty tensor for every recorded tensor position of the
  outputs, which must hold a \<^verbatim>\<open>framework.Variable\<close>.\<close>

fun prepare_outputs :: "'e layer \<Rightarrow> nat list \<Rightarrow> error + 'e varbase list" where
  "prepare_outputs self [] = Inr []"
| "prepare_outputs self (idx # rest) =
     (case getitem (outputs self) idx of
        Inl e \<Rightarrow> Inl e
      | Inr (Variable v) \<Rightarrow>
          (case prepare_outputs self rest of
             Inl e \<Rightarrow> Inl e
           | Inr out_vars \<Rightarrow> Inr (empty_varbase v # out_vars))
      | Inr _ \<Rightarrow> Inl AssertionError)"

definition tmp_scope_vec :: "'e varbase" where
  "tmp_scope_vec =
     \<lparr>vb_name = ''program_out_scope'', vb_dtype = ''FP32'', vb_shape = [],
      vb_type = ''STEP_SCOPES'', vb_persistable = True, stop_gradient = False,
      vb_data = [], grad_type = ''STEP_SCOPES''\<rparr>"

definition prepare ::
  "'e layer \<Rightarrow> 'e pyval \<Rightarrow> error + ('e varbase list \<times> 'e varbase list \<times> 'e varbase)" where
  "prepare self ins =
     (case ins of
        PySeq k xs \<Rightarrow>
          (case prepare_inputs self 0 (flatten ins) of
             Inl e \<Rightarrow> Inl e
           | Inr input_vars \<Rightarrow>
               (case prepare_outputs self (var_ids (outputs self)) of
                  Inl e \<Rightarrow> Inl e
                | Inr out_vars \<Rightarrow> Inr (input_vars, out_vars, tmp_scope_vec)))
      | _ \<Rightarrow> Inl AssertionError)"

text \<open>\<^verbatim>\<open>valid_vars\<close>: a list that is empty is replaced by one fake tensor.\<close>

definition Fake_var :: "('e::one) varbase" where
  "Fake_var =
     \<lparr>vb_name = ''Fake_var'', vb_dtype = ''int64'', vb_shape = [1], vb_type = ''LOD_TENSOR'',
      vb_persistable = False, stop_gradient = True, vb_data = [1],
      grad_type = ''LOD_TENSOR''\<rparr>"

definition valid_vars :: "('e::one) varbase list \<Rightarrow> 'e varbase list" where
  "valid_vars vs = (if vs \<noteq> [] then vs else [Fake_var])"

subsection \<open>Restoring and filtering the outputs\<close>

text \<open>\<^verbatim>\<open>len(outs)\<close> and \<^verbatim>\<open>outs[0]\<close> on a tuple, a list or a dict; for any other
  object the collaborators tell.\<close>

definition py_len :: "'e collaborators \<Rightarrow> 'e pyval \<Rightarrow> error + nat" where
  "py_len env v =
     (case v of
        PySeq k xs \<Rightarrow> Inr (length xs)
      | PyDict kvs \<Rightarrow> Inr (length kvs)
      | _ \<Rightarrow> object_len env v)"

definition py_getitem0 :: "'e collaborators \<Rightarrow> 'e pyval \<Rightarrow> error + 'e pyval" where
  "py_getitem0 env v =
     (case v of
        PySeq k xs \<Rightarrow> (case xs of [] \<Rightarrow> Inl IndexError | x # rest \<Rightarrow> Inr x)
      | PyDict kvs \<Rightarrow> (case map_of kvs (KInt 0) of None \<Rightarrow> Inl KeyError | Some x \<Rightarrow> Inr x)
      | _ \<Rightarrow> object_getitem0 env v)"

text \<open>The loop of \<^verbatim>\<open>_restore_out\<close>:
  \<^verbatim>\<open>flatten_outputs[idx] = out_vars[i]\<close> for every \<^verbatim>\<open>(i, idx)\<close>.\<close>

fun scatter ::
  "'e pyval list \<Rightarrow> (nat \<times> nat) list \<Rightarrow> 'e varbase list \<Rightarrow> error + 'e pyval list" where
  "scatter flatten_outputs [] out_vars = Inr flatten_outputs"
| "scatter flatten_outputs ((i, idx) # rest) out_vars =
     (if i < length out_vars \<and> idx < length flatten_outputs
      then scatter (flatten_outputs[idx := VarBase (out_vars ! i)]) rest out_vars
      else Inl IndexError)"

definition restore_out ::
  "'e collaborators \<Rightarrow> 'e layer \<Rightarrow> 'e varbase list \<Rightarrow> error + 'e pyval" where
  "restore_out env self out_vars =
     (case scatter (tolist (outputs self)) (enumerate 0 (var_ids (outputs self))) out_vars of
        Inl e \<Rightarrow> Inl e
      | Inr flatten_outputs \<Rightarrow>
          (case restore (outputs self) flatten_outputs of
             Inl e \<Rightarrow> Inl e
           | Inr outs \<Rightarrow>
               if outs \<noteq> PyNone
               then (case py_len env outs of
                       Inl e \<Rightarrow> Inl e
                     | Inr n \<Rightarrow> if n = 1 then py_getitem0 env outs else Inr outs)
               else Inr outs))"

text \<open>\<^verbatim>\<open>_is_no_value\<close>. \<^verbatim>\<open>var.numpy()[0]\<close> is read only when the shape is
  \<^verbatim>\<open>[1]\<close>, and raises when the tensor holds no element.\<close>

definition is_no_value :: "'e \<Rightarrow> 'e pyval \<Rightarrow> error + bool" where
  "is_no_value magic var =
     (case var of
        VarBase v \<Rightarrow>
          if vb_shape v = [1]
          then (case vb_data v of [] \<Rightarrow> Inl IndexError | x # rest \<Rightarrow> Inr (x = magic))
          else Inr False
      | _ \<Rightarrow> Inr False)"

text \<open>The comprehension of \<^verbatim>\<open>_remove_no_value\<close>:
  \<^verbatim>\<open>var for var in out_vars if not self._is_no_value(var)\<close>.\<close>

fun keep_values :: "'e \<Rightarrow> 'e pyval list \<Rightarrow> error + 'e pyval list" where
  "keep_values magic [] = Inr []"
| "keep_values magic (var # rest) =
     (case is_no_value magic var of
        Inl e \<Rightarrow> Inl e
      | Inr b \<Rightarrow>
          (case keep_values magic rest of
             Inl e \<Rightarrow> Inl e
           | Inr res \<Rightarrow> Inr (if b then res else var # res)))"

definition remove_no_value :: "'e \<Rightarrow> 'e pyval \<Rightarrow> error + 'e pyval" where
  "remove_no_value magic out_vars =
     (case out_vars of
        VarBase v \<Rightarrow>
          (case is_no_value magic out_vars of
             Inl e \<Rightarrow> Inl e
           | Inr b \<Rightarrow> if b then Inr PyNone else Inr out_vars)
      | PySeq k xs \<Rightarrow>
          (case keep_values magic xs of
             Inl e \<Rightarrow> Inl e
           | Inr res \<Rightarrow>
               (let has_removed = (length xs > length res) in
                if length res = 0 \<and> has_removed then Inr PyNone
                else if length res = 1 \<and> has_removed then Inr (res ! 0)
                else Inr (PySeq k res)))
      | _ \<Rightarrow> Inr out_vars)"

subsection \<open>forward\<close>

text \<open>
  The arguments of \<^verbatim>\<open>trace_op\<close> are evaluated before the call, in the order of the
  source: the inputs and the outputs first, then \<^verbatim>\<open>self.program\<close>, then
  \<^verbatim>\<open>self._infer_program\<close>. Building the training program sets the gradient kind on
  the parameter objects themselves, which the list handed over shares: the interpreter
  sees the parameters as the build left them. An error leaves the instance as it was
  when the error was raised.
\<close>

definition trace_op_args ::
  "('e::one) collaborators \<Rightarrow> 'e layer \<Rightarrow> 'e varbase list \<Rightarrow> 'e varbase list \<Rightarrow> 'e varbase
     \<Rightarrow> (error + 'e run_program_args) \<times> 'e layer" where
  "trace_op_args env self in_vars out_vars scope_vec =
     (case get_program env self of
        Inl e \<Rightarrow> (Inl e, self)
      | Inr (prog, self1) \<Rightarrow>
          (case get_infer_program env self1 of
             Inl e \<Rightarrow> (Inl e, self1)
           | Inr (infer, self2) \<Rightarrow>
               (Inr \<lparr>X = valid_vars in_vars, Params = valid_vars (params self2),
                     Out = valid_vars out_vars, OutScope = scope_vec,
                     DOut = valid_vars (double_grads self2),
                     arg_global_block = global_block prog, start_op_index = 0,
                     end_op_index = op_size (global_block infer),
                     is_test = (\<not> training self2)\<rparr>,
                self2)))"

definition forward ::
  "('e::one) collaborators \<Rightarrow> 'e layer \<Rightarrow> 'e pyval \<Rightarrow> (error + 'e pyval) \<times> 'e layer" where
  "forward env self ins =
     (case prepare self ins of
        Inl e \<Rightarrow> (Inl e, self)
      | Inr (in_vars, out_vars, scope_vec) \<Rightarrow>
          (case trace_op_args env self in_vars out_vars scope_vec of
             (Inl e, self') \<Rightarrow> (Inl e, self')
           | (Inr args, self') \<Rightarrow>
               (case trace_op env args of
                  Inl e \<Rightarrow> (Inl e, self')
                | Inr run \<Rightarrow>
                    (case restore_out env self' (map run [0..<length out_vars]) of
                       Inl e \<Rightarrow> (Inl e, self')
                     | Inr restored_nest_out \<Rightarrow>
                         (remove_no_value (MAGIC_NUM env) restored_nest_out, self')))))"

subsection \<open>The life of an instance\<close>

text \<open>What happens to an instance after its construction: calls of \<^verbatim>\<open>forward\<close> and
  assignments to the flag \<^verbatim>\<open>training\<close>, in any order.\<close>

datatype 'e event = Forward "'e pyval" | SetTraining bool

fun step :: "('e::one) collaborators \<Rightarrow> 'e layer \<Rightarrow> 'e event \<Rightarrow> 'e layer" where
  "step env self (Forward ins) = snd (forward env self ins)"
| "step env self (SetTraining b) = self\<lparr>training := b\<rparr>"

definition run_events :: "('e::one) collaborators \<Rightarrow> 'e layer \<Rightarrow> 'e event list \<Rightarrow> 'e layer" where
  "run_events env self evs = foldl (step env) self evs"

section \<open>Notions of the specification\<close>

text \<open>A name is referenced by a graph when it appears among the input-argument names
  or the output-argument names of at least one operator in some block.\<close>

definition referenced :: "program \<Rightarrow> string \<Rightarrow> bool" where
  "referenced g name =
     (\<exists>b \<in> set (blocks g). \<exists>op \<in> set (ops b).
        name \<in> set (input_arg_names op) \<or> name \<in> set (output_arg_names op))"

text \<open>A value is a no-value sentinel when it is a runtime tensor whose shape is exactly
  \<^verbatim>\<open>[1]\<close> and whose single element equals the magic constant.\<close>

definition is_sentinel :: "'e \<Rightarrow> 'e pyval \<Rightarrow> bool" where
  "is_sentinel magic v =
     (case v of VarBase t \<Rightarrow> vb_shape t = [1] \<and> vb_data t = [magic] | _ \<Rightarrow> False)"

text \<open>A tensor that has been written holds as many elements as its shape says.\<close>

definition holds_shape :: "'e pyval \<Rightarrow> bool" where
  "holds_shape v =
     (case v of VarBase t \<Rightarrow> int (length (vb_data t)) = prod_list (vb_shape t) | _ \<Rightarrow> True)"

definition is_varbase :: "'e pyval \<Rightarrow> bool" where
  "is_varbase v = (case v of VarBase t \<Rightarrow> True | _ \<Rightarrow> False)"

definition is_tuple_or_list :: "'e pyval \<Rightarrow> bool" where
  "is_tuple_or_list v = (case v of PySeq k xs \<Rightarrow> True | _ \<Rightarrow> False)"

section \<open>A small instance\<close>

text \<open>The graph of \<open>y = x * w\<close>: one input \<open>x\<close>, one parameter \<open>w\<close>, one output
  \<open>y\<close>, one operator. The parameters supplied are \<open>w\<close> and an unused \<open>b\<close>.\<close>

definition ex_var :: "string \<Rightarrow> bool \<Rightarrow> variable" where
  "ex_var name param =
     \<lparr>var_name = name, var_dtype = ''float32'', var_shape = [1], var_type = ''LOD_TENSOR'',
      var_persistable = param, is_parameter = param\<rparr>"

definition ex_tensor :: "string \<Rightarrow> int list \<Rightarrow> int varbase" where
  "ex_tensor name xs =
     \<lparr>vb_name = name, vb_dtype = ''float32'', vb_shape = [int (length xs)],
      vb_type = ''LOD_TENSOR'', vb_persistable = False, stop_gradient = True, vb_data = xs,
      grad_type = ''LOD_TENSOR''\<rparr>"

definition ex_mul :: operator where
  "ex_mul =
     \<lparr>op_type = ''mul'', input_arg_names = [''x'', ''w''], output_arg_names = [''y''],
      op_attrs = [(''is_test'', ABool False)]\<rparr>"

definition ex_program :: program where
  "ex_program =
     \<lparr>global_block =
        \<lparr>ops = [ex_mul],
         vars = [(''x'', ex_var ''x'' False), (''w'', ex_var ''w'' True),
                 (''y'', ex_var ''y'' False)]\<rparr>,
      sub_blocks = []\<rparr>"

text \<open>Collaborators for the instance: the lookup of a block raises for an absent
  name, the autodiff engine appends one operator, the interpreter writes \<open>[7]\<close> into
  every output, and an object that is no container has no length.\<close>

definition ex_env :: "int collaborators" where
  "ex_env =
     \<lparr>MAGIC_NUM = 42, grad_var_suffix = ''@GRAD'',
      block_var = (\<lambda>b name. case find_var b name of
                               None \<Rightarrow> Inl (ValueError name) | Some v \<Rightarrow> Inr v),
      gradients = (\<lambda>p targets.
         Inr (p\<lparr>global_block :=
                  (global_block p)\<lparr>ops := ops (global_block p) @
                     [\<lparr>op_type = ''mul_grad'', input_arg_names = [''y@GRAD'', ''x'', ''w''],
                       output_arg_names = [''w@GRAD''], op_attrs = []\<rparr>]\<rparr>\<rparr>)),
      trace_op = (\<lambda>args. Inr (\<lambda>i. ex_tensor ''y'' [7])),
      object_len = (\<lambda>v. Inl (TypeError None)),
      object_getitem0 = (\<lambda>v. Inl (TypeError None))\<rparr>"

text \<open>A name is undeclared when some block of the graph defines a
  \<^verbatim>\<open>framework.Parameter\<close> under it and it is not among the names supplied.\<close>

definition undeclared :: "program \<Rightarrow> string set \<Rightarrow> string \<Rightarrow> bool" where
  "undeclared g names n =
     (n \<notin> names \<and> (\<exists>b \<in> set (blocks g). \<exists>v. (n, v) \<in> set (vars b) \<and> is_parameter v))"

text \<open>A graph with a persistable variable that is no \<^verbatim>\<open>framework.Parameter\<close>: the
  running mean of a normalisation, a buffer.\<close>

definition ex_buffer :: variable where
  "ex_buffer =
     \<lparr>var_name = ''mean'', var_dtype = ''float32'', var_shape = [1],
      var_type = ''LOD_TENSOR'', var_persistable = True, is_parameter = False\<rparr>"

definition ex_buffer_program :: program where
  "ex_buffer_program =
     \<lparr>global_block =
        \<lparr>ops = [\<lparr>op_type = ''scale'', input_arg_names = [''x'', ''mean''],
                  output_arg_names = [''y''], op_attrs = []\<rparr>],
         vars = [(''x'', ex_var ''x'' False), (''mean'', ex_buffer),
                 (''y'', ex_var ''y'' False)]\<rparr>,
      sub_blocks = []\<rparr>"

text \<open>The instance constructed from the small graph with the parameters \<open>w\<close> and
  \<open>b\<close>, and an input for it.\<close>

definition ex_layer :: "int layer" where
  "ex_layer =
     \<lparr>inputs = NestSequence (PySeq List [Variable (ex_var ''x'' False)]),
      outputs = NestSequence (PySeq List [Variable (ex_var ''y'' False)]),
      params = [ex_tensor ''w'' [2]], origin_main_program = ex_program,
      double_grads = [], training = True, infer_program_attr = None,
      train_program_attr = None, infer_builds = 0, train_builds = 0\<rparr>"

definition ex_input :: "int pyval" where
  "ex_input = PySeq List [NdArray \<lparr>nd_dtype = ''float32'', nd_shape = [1], nd_data = [3]\<rparr>]"

text \<open>The training program of the instance: the operator of the graph, then the one
  the autodiff engine of the instance appends.\<close>

definition ex_train_program :: program where
  "ex_train_program =
     \<lparr>global_block =
        \<lparr>ops = [ex_mul,
                 \<lparr>op_type = ''mul_grad'', input_arg_names = [''y@GRAD'', ''x'', ''w''],
                   output_arg_names = [''w@GRAD''], op_attrs = []\<rparr>],
         vars = [(''x'', ex_var ''x'' False), (''w'', ex_var ''w'' True),
                 (''y'', ex_var ''y'' False)]\<rparr>,
      sub_blocks = []\<rparr>"

definition ex_infer_program :: program where
  "ex_infer_program =
     \<lparr>global_block =
        \<lparr>ops = [ex_mul\<lparr>op_attrs := [(''is_test'', ABool True)]\<rparr>],
         vars = [(''x'', ex_var ''x'' False), (''w'', ex_var ''w'' True),
                 (''y'', ex_var ''y'' False)]\<rparr>,
      sub_blocks = []\<rparr>"

text \<open>The instance after its training program has been built, and after both have.\<close>

definition ex_layer_trained :: "int layer" where
  "ex_layer_trained =
     ex_layer\<lparr>train_program_attr := Some ex_train_program, train_builds := 1\<rparr>"

definition ex_layer_built :: "int layer" where
  "ex_layer_built =
     ex_layer\<lparr>infer_program_attr := Some ex_infer_program,
              train_program_attr := Some ex_train_program,
              infer_builds := 1, train_builds := 1\<rparr>"

text \<open>The interpreter's contract forbids empty input and output lists. The guarded
  collaborators are the given ones with an interpreter that refuses a call in which
  one of the four lists is empty.\<close>

definition guarded :: "'e collaborators \<Rightarrow> 'e collaborators" where
  "guarded env =
     env\<lparr>trace_op := (\<lambda>args.
        if X args = [] \<or> Params args = [] \<or> Out args = [] \<or> DOut args = []
        then Inl (ExecutionError ''empty list'')
        else trace_op env args)\<rparr>"

text \<open>The bookkeeping agrees with the instance's dictionary: a program that is absent
  has not been built, one that is present has been built once.\<close>

definition build_counts_ok :: "'e layer \<Rightarrow> bool" where
  "build_counts_ok s =
     (infer_builds s = (if infer_program_attr s = None then 0 else 1) \<and>
      train_builds s = (if train_program_attr s = None then 0 else 1))"

text \<open>A later state of an instance keeps the programs an earlier one holds.\<close>

definition keeps_programs :: "'e layer \<Rightarrow> 'e layer \<Rightarrow> bool" where
  "keeps_programs s s' =
     ((infer_program_attr s = None \<or> infer_program_attr s' = infer_program_attr s) \<and>
      (train_program_attr s = None \<or> train_program_attr s' = train_program_attr s))"

definition is_Variable :: "'e pyval \<Rightarrow> bool" where
  "is_Variable v = (case v of Variable x \<Rightarrow> True | _ \<Rightarrow> False)"

section \<open>Flattening and packing\<close>

lemma repack_flatten:
  "repack (s::'e pyval) (flatten s @ r) = Some (s, r)"
  "repack_items (xs::'e pyval list) (flatten_items xs @ r) = Some (xs, r)"
  "repack_entries (kvs::(pykey \<times> 'e pyval) list) (flatten_entries kvs @ r) = Some (kvs, r)"
  by (induction s and xs and kvs arbitrary: r and r and r
      rule: flatten_flatten_items_flatten_entries.induct) simp_all

lemma flatten_leaves:
  "\<forall>v \<in> set (flatten (s::'e pyval)). \<not> is_sequence v"
  "\<forall>v \<in> set (flatten_items (xs::'e pyval list)). \<not> is_sequence v"
  "\<forall>v \<in> set (flatten_entries (kvs::(pykey \<times> 'e pyval) list)). \<not> is_sequence v"
  by (induction s and xs and kvs rule: flatten_flatten_items_flatten_entries.induct) auto

lemma leaf_flatten: "\<not> is_sequence v \<Longrightarrow> flatten v = [v]"
  by (cases v) auto

lemma repack_enough:
  "length (flatten (t::'e pyval)) \<le> length vs
     \<Longrightarrow> \<exists>p. repack t vs = Some (p, drop (length (flatten t)) vs)"
  "length (flatten_items (xs::'e pyval list)) \<le> length vs
     \<Longrightarrow> \<exists>ps. repack_items xs vs = Some (ps, drop (length (flatten_items xs)) vs)"
  "length (flatten_entries (kvs::(pykey \<times> 'e pyval) list)) \<le> length vs
     \<Longrightarrow> \<exists>qs. repack_entries kvs vs = Some (qs, drop (length (flatten_entries kvs)) vs)"
proof (induction t and xs and kvs arbitrary: vs and vs and vs
    rule: flatten_flatten_items_flatten_entries.induct)
  case (1 k xs)
  from 1(1)[of vs] 1(2) show ?case by auto
next
  case (2 kvs)
  from 2(1)[of vs] 2(2) show ?case by auto
next
  case (9 x xs)
  from 9 obtain p where p: "repack x vs = Some (p, drop (length (flatten x)) vs)"
    by fastforce
  from 9 have "length (flatten_items xs) \<le> length (drop (length (flatten x)) vs)"
    by simp
  from 9(2)[OF this] obtain ps where
    "repack_items xs (drop (length (flatten x)) vs) =
       Some (ps, drop (length (flatten_items xs)) (drop (length (flatten x)) vs))"
    by blast
  with p show ?case by (simp add: add.commute)
next
  case (11 kv kvs)
  from 11 obtain p where p: "repack (snd kv) vs = Some (p, drop (length (flatten (snd kv))) vs)"
    by fastforce
  from 11 have "length (flatten_entries kvs) \<le> length (drop (length (flatten (snd kv))) vs)"
    by simp
  from 11(2)[OF this] obtain ps where
    "repack_entries kvs (drop (length (flatten (snd kv))) vs) =
       Some (ps, drop (length (flatten_entries kvs)) (drop (length (flatten (snd kv))) vs))"
    by blast
  with p show ?case by (simp add: add.commute)
qed (auto split: list.splits)

lemma repack_rest:
  "repack (t::'e pyval) vs = Some (p, r) \<Longrightarrow> set r \<subseteq> set vs"
  "repack_items (xs::'e pyval list) vs = Some (ps, r) \<Longrightarrow> set r \<subseteq> set vs"
  "repack_entries (kvs::(pykey \<times> 'e pyval) list) vs = Some (qs, r) \<Longrightarrow> set r \<subseteq> set vs"
proof (induction t and xs and kvs arbitrary: vs p r and vs ps r and vs qs r
    rule: flatten_flatten_items_flatten_entries.induct)
qed (fastforce split: option.splits list.splits prod.splits)+

lemma repack_same_shape:
  "repack (t::'e pyval) vs = Some (p, r) \<Longrightarrow> \<forall>v \<in> set vs. \<not> is_sequence v
     \<Longrightarrow> same_shape t p"
  "repack_items (xs::'e pyval list) vs = Some (ps, r) \<Longrightarrow> \<forall>v \<in> set vs. \<not> is_sequence v
     \<Longrightarrow> same_shape_items xs ps"
  "repack_entries (kvs::(pykey \<times> 'e pyval) list) vs = Some (qs, r)
     \<Longrightarrow> \<forall>v \<in> set vs. \<not> is_sequence v \<Longrightarrow> same_shape_entries kvs qs"
proof (induction t and xs and kvs arbitrary: vs p r and vs ps r and vs qs r
    rule: flatten_flatten_items_flatten_entries.induct)
  case (9 x xs)
  from 9(3) obtain y r1 ys where a: "repack x vs = Some (y, r1)"
    and b: "repack_items xs r1 = Some (ys, r)" and c: "ps = y # ys"
    by (auto split: option.splits prod.splits)
  from repack_rest(1)[OF a] 9(4) have "\<forall>v \<in> set r1. \<not> is_sequence v" by blast
  with 9(1)[OF a 9(4)] 9(2)[OF b] c show ?case by simp
next
  case (11 kv kvs)
  from 11(3) obtain y r1 ys where a: "repack (snd kv) vs = Some (y, r1)"
    and b: "repack_entries kvs r1 = Some (ys, r)" and c: "qs = (fst kv, y) # ys"
    by (auto split: option.splits prod.splits)
  from repack_rest(1)[OF a] 11(4) have "\<forall>v \<in> set r1. \<not> is_sequence v" by blast
  with 11(1)[OF a 11(4)] 11(2)[OF b] c show ?case by simp
qed (auto split: option.splits list.splits prod.splits)

lemma repack_Some_flatten:
  "repack (s::'e pyval) vs = Some (p, r) \<Longrightarrow> \<forall>v \<in> set vs. \<not> is_sequence v
     \<Longrightarrow> flatten p @ r = vs"
  "repack_items (xs::'e pyval list) vs = Some (ps, r) \<Longrightarrow> \<forall>v \<in> set vs. \<not> is_sequence v
     \<Longrightarrow> flatten_items ps @ r = vs"
  "repack_entries (kvs::(pykey \<times> 'e pyval) list) vs = Some (qs, r)
     \<Longrightarrow> \<forall>v \<in> set vs. \<not> is_sequence v \<Longrightarrow> flatten_entries qs @ r = vs"
proof (induction s vs and xs vs and kvs vs arbitrary: p r and ps r and qs r
    rule: repack_repack_items_repack_entries.induct)
qed (auto split: option.splits list.splits prod.splits simp: leaf_flatten)

lemma repack_values_at:
  "repack (t::'e pyval) vs = Some (p, r) \<Longrightarrow> \<exists>us. values_at t p = Some us \<and> us @ r = vs"
  "repack_items (xs::'e pyval list) vs = Some (ps, r)
     \<Longrightarrow> \<exists>us. values_at_items xs ps = Some us \<and> us @ r = vs"
  "repack_entries (kvs::(pykey \<times> 'e pyval) list) vs = Some (qs, r)
     \<Longrightarrow> \<exists>us. values_at_entries kvs qs = Some us \<and> us @ r = vs"
proof (induction t and xs and kvs arbitrary: vs p r and vs ps r and vs qs r
    rule: flatten_flatten_items_flatten_entries.induct)
  case (9 x xs)
  from 9(3) obtain y r1 ys where a: "repack x vs = Some (y, r1)"
    and b: "repack_items xs r1 = Some (ys, r)" and c: "ps = y # ys"
    by (auto split: option.splits prod.splits)
  from 9(1)[OF a] 9(2)[OF b] c show ?case by auto
next
  case (11 kv kvs)
  from 11(3) obtain y r1 ys where a: "repack (snd kv) vs = Some (y, r1)"
    and b: "repack_entries kvs r1 = Some (ys, r)" and c: "qs = (fst kv, y) # ys"
    by (auto split: option.splits prod.splits)
  from 11(1)[OF a] 11(2)[OF b] c show ?case by auto
qed (auto split: option.splits list.splits prod.splits)

lemma pack_sequence_as_ok:
  assumes "length vs = length (flatten t)"
  shows "\<exists>p. pack_sequence_as t vs = Inr p \<and> repack t vs = Some (p, [])"
proof -
  from assms have "length (flatten t) \<le> length vs" by simp
  from repack_enough(1)[OF this] assms show ?thesis
    by (auto simp: pack_sequence_as_def)
qed

section \<open>Claim C6: the round trip of flatten and restore\<close>

text \<open>
  Claim C6. For every nested structure \<open>s\<close>, restoring the flattened sequence of
  \<open>s\<close> into \<open>s\<close> gives back \<open>s\<close> itself. And for a flattened sequence (the
  flattening of some structure \<open>u\<close>) that has as many elements as a template \<open>t\<close>
  has leaves, \<open>restore\<close> returns a structure, and flattening that structure gives a
  sequence of the same length as the flattened sequence.
\<close>

theorem restore_tolist_roundtrip:
  "restore (NestSequence s) (tolist (NestSequence s)) = Inr s \<and>
   (length (tolist (NestSequence u)) = length (tolist (NestSequence t)) \<longrightarrow>
      (\<exists>r. restore (NestSequence t) (tolist (NestSequence u)) = Inr r \<and>
           length (tolist (NestSequence r)) = length (tolist (NestSequence u))))"
proof (intro conjI impI)
  have "repack s (flatten s @ []) = Some (s, [])" by (rule repack_flatten(1))
  then show "restore (NestSequence s) (tolist (NestSequence s)) = Inr s"
    by (simp add: restore_def tolist_def NestSequence_def pack_sequence_as_def)
next
  assume len: "length (tolist (NestSequence u)) = length (tolist (NestSequence t))"
  then have l: "length (flatten u) = length (flatten t)"
    by (simp add: tolist_def NestSequence_def)
  from pack_sequence_as_ok[OF l] obtain p where
    p: "pack_sequence_as t (flatten u) = Inr p" and q: "repack t (flatten u) = Some (p, [])"
    by blast
  from repack_Some_flatten(1)[OF q flatten_leaves(1)] have "flatten p = flatten u" by simp
  with p l show "\<exists>r. restore (NestSequence t) (tolist (NestSequence u)) = Inr r \<and>
           length (tolist (NestSequence r)) = length (tolist (NestSequence u))"
    by (simp add: restore_def tolist_def NestSequence_def)
qed

theorem restore_tolist_roundtrip_witness:
  "restore (NestSequence (PySeq Tuple [Opaque ''a'', PyDict [(KStr ''k'', PySeq List [PyNone, Opaque ''b''])]]))
     (tolist (NestSequence (PySeq Tuple [Opaque ''a'', PyDict [(KStr ''k'', PySeq List [PyNone, Opaque ''b''])]])))
   = Inr (PySeq Tuple [Opaque ''a'', PyDict [(KStr ''k'', PySeq List [PyNone, Opaque ''b''])]] :: int pyval) \<and>
   length (tolist (NestSequence (PySeq List [Opaque ''x'', PySeq List [Opaque ''y'']] :: int pyval)))
     = length (tolist (NestSequence (PySeq Tuple [PyNone, PyNone] :: int pyval))) \<and>
   (\<exists>r. restore (NestSequence (PySeq Tuple [PyNone, PyNone]))
           (tolist (NestSequence (PySeq List [Opaque ''x'', PySeq List [Opaque ''y'']] :: int pyval))) = Inr r \<and>
        length (tolist (NestSequence r))
          = length (tolist (NestSequence (PySeq List [Opaque ''x'', PySeq List [Opaque ''y'']] :: int pyval))))"
  using restore_tolist_roundtrip
    [of "PySeq Tuple [Opaque ''a'', PyDict [(KStr ''k'', PySeq List [PyNone, Opaque ''b''])]] :: int pyval"
        "PySeq List [Opaque ''x'', PySeq List [Opaque ''y'']]"
        "PySeq Tuple [PyNone, PyNone]"]
  by (simp add: tolist_def NestSequence_def)

section \<open>Claim C7: restore checks the number of values\<close>

text \<open>
  Claim C7. For every template \<open>t\<close> and value list \<open>v\<close>: when the length of \<open>v\<close>
  differs from the number of leaves of \<open>t\<close>, \<open>restore\<close> fails at once, on its
  assertion. Otherwise it returns a structure \<open>r\<close> with the containers of \<open>t\<close> whose
  values at the leaf places of \<open>t\<close> are, in order, the elements of \<open>v\<close>; when no
  element of \<open>v\<close> is itself a container, \<open>r\<close> is isomorphic to \<open>t\<close> and flattens
  to \<open>v\<close>.
\<close>

theorem restore_arity:
  "(length v \<noteq> length (tolist (NestSequence t)) \<longrightarrow>
      restore (NestSequence t) v = Inl AssertionError) \<and>
   (length v = length (tolist (NestSequence t)) \<longrightarrow>
      (\<exists>r. restore (NestSequence t) v = Inr r \<and> values_at t r = Some v \<and>
           ((\<forall>x \<in> set v. \<not> is_sequence x) \<longrightarrow> same_shape t r \<and> flatten r = v)))"
proof (intro conjI impI)
  assume "length v \<noteq> length (tolist (NestSequence t))"
  then show "restore (NestSequence t) v = Inl AssertionError"
    by (auto simp: restore_def)
next
  assume "length v = length (tolist (NestSequence t))"
  then have l: "length v = length (flatten t)"
    by (simp add: tolist_def NestSequence_def)
  from pack_sequence_as_ok[OF l] obtain p where
    p: "pack_sequence_as t v = Inr p" and q: "repack t v = Some (p, [])"
    by blast
  from p l have r: "restore (NestSequence t) v = Inr p"
    by (simp add: restore_def tolist_def NestSequence_def)
  from repack_values_at(1)[OF q] have va: "values_at t p = Some v" by simp
  have "(\<forall>x \<in> set v. \<not> is_sequence x) \<longrightarrow> same_shape t p \<and> flatten p = v"
    using repack_same_shape(1)[OF q] repack_Some_flatten(1)[OF q] by auto
  with r va show "\<exists>r. restore (NestSequence t) v = Inr r \<and> values_at t r = Some v \<and>
           ((\<forall>x \<in> set v. \<not> is_sequence x) \<longrightarrow> same_shape t r \<and> flatten r = v)"
    by blast
qed

theorem restore_arity_witness:
  "length [Opaque ''p'' :: int pyval] \<noteq> length (tolist (NestSequence (PySeq List [PyNone, PyNone] :: int pyval))) \<and>
   restore (NestSequence (PySeq List [PyNone, PyNone])) [Opaque ''p'' :: int pyval] = Inl AssertionError \<and>
   length [Opaque ''p'', Opaque ''q'' :: int pyval] = length (tolist (NestSequence (PySeq List [PyNone, PySeq Tuple [PyNone]] :: int pyval))) \<and>
   \<not> is_sequence (Opaque ''p'' :: int pyval) \<and> \<not> is_sequence (Opaque ''q'' :: int pyval) \<and>
   restore (NestSequence (PySeq List [PyNone, PySeq Tuple [PyNone]])) [Opaque ''p'', Opaque ''q'' :: int pyval]
     = Inr (PySeq List [Opaque ''p'', PySeq Tuple [Opaque ''q'']]) \<and>
   same_shape (PySeq List [PyNone, PySeq Tuple [PyNone]]) (PySeq List [Opaque ''p'', PySeq Tuple [Opaque ''q'' :: int pyval]])"
  using restore_arity [of "[Opaque ''p'' :: int pyval]" "PySeq List [PyNone, PyNone]"]
    restore_arity [of "[Opaque ''p'', Opaque ''q'' :: int pyval]" "PySeq List [PyNone, PySeq Tuple [PyNone]]"]
  by (simp add: tolist_def NestSequence_def restore_def pack_sequence_as_def)

section \<open>Claim C2: pruning the parameters\<close>

lemma found_in_ops_iff:
  "found_in_ops name os =
     (\<exists>op \<in> set os. name \<in> set (input_arg_names op) \<or> name \<in> set (output_arg_names op))"
  by (induction os) auto

lemma found_in_blocks_iff:
  "found_in_blocks name bs =
     (\<exists>b \<in> set bs. \<exists>op \<in> set (ops b).
        name \<in> set (input_arg_names op) \<or> name \<in> set (output_arg_names op))"
  by (induction bs) (auto simp: found_in_ops_iff)

lemma prune_filter:
  "prune_unused_params ps g = filter (\<lambda>p. referenced g (vb_name p)) ps"
  by (induction ps) (auto simp: found_in_blocks_iff referenced_def)

lemma the_varbases_map [simp]: "the_varbases (PySeq k (map VarBase ps)) = ps"
  by (induction ps) auto

text \<open>
  Claim C2. For every parameter list \<open>P\<close> and base graph \<open>G\<close>, pruning leaves the
  ordered sublist of \<open>P\<close> of exactly those parameters whose name is referenced by some
  operator in some block of \<open>G\<close>; the order of the survivors is that of \<open>P\<close>; pruning
  the pruned list again changes nothing; and a construction that succeeds on the
  parameters \<open>P\<close> stores the pruned list on the instance.
\<close>

theorem prune_unused_params_sublist:
  "prune_unused_params P G = filter (\<lambda>p. referenced G (vb_name p)) P \<and>
   subseq (prune_unused_params P G) P \<and>
   prune_unused_params (prune_unused_params P G) G = prune_unused_params P G \<and>
   (init G ins outs (PySeq k (map VarBase P)) = Inr self \<longrightarrow>
      params self = prune_unused_params P G)"
  by (auto simp: prune_filter init_def verify_program_def simp del: the_varbases.simps
      split: sum.splits if_splits)

lemma ex_init:
 "init ex_program (PySeq List [Variable (ex_var ''x'' False)])
        (PySeq List [Variable (ex_var ''y'' False)])
        (PySeq List (map VarBase [ex_tensor ''w'' [2], ex_tensor ''b'' [3]]))
   = Inr \<lparr>inputs = NestSequence (PySeq List [Variable (ex_var ''x'' False)]),
           outputs = NestSequence (PySeq List [Variable (ex_var ''y'' False)]),
           params = [ex_tensor ''w'' [2]], origin_main_program = ex_program,
           double_grads = [], training = True, infer_program_attr = None,
           train_program_attr = None, infer_builds = 0, train_builds = 0\<rparr>"
  by (simp add: init_def verify_program_def check_params_all_inited_def ex_program_def blocks_def
      ex_tensor_def ex_var_def ex_mul_def get_double_grads_def)

theorem prune_unused_params_sublist_witness:
  "init ex_program (PySeq List [Variable (ex_var ''x'' False)])
        (PySeq List [Variable (ex_var ''y'' False)])
        (PySeq List (map VarBase [ex_tensor ''w'' [2], ex_tensor ''b'' [3]]))
   = Inr \<lparr>inputs = NestSequence (PySeq List [Variable (ex_var ''x'' False)]),
           outputs = NestSequence (PySeq List [Variable (ex_var ''y'' False)]),
           params = [ex_tensor ''w'' [2]], origin_main_program = ex_program,
           double_grads = [], training = True, infer_program_attr = None,
           train_program_attr = None, infer_builds = 0, train_builds = 0\<rparr> \<and>
   prune_unused_params [ex_tensor ''w'' [2], ex_tensor ''b'' [3]] ex_program = [ex_tensor ''w'' [2]]"
proof -
  let ?self = "\<lparr>inputs = NestSequence (PySeq List [Variable (ex_var ''x'' False)]),
           outputs = NestSequence (PySeq List [Variable (ex_var ''y'' False)]),
           params = [ex_tensor ''w'' [2]], origin_main_program = ex_program,
           double_grads = [], training = True, infer_program_attr = None,
           train_program_attr = None, infer_builds = 0, train_builds = 0\<rparr>"
  have "params ?self = prune_unused_params [ex_tensor ''w'' [2], ex_tensor ''b'' [3]] ex_program"
    using prune_unused_params_sublist
      [where P = "[ex_tensor ''w'' [2], ex_tensor ''b'' [3]]" and G = ex_program
         and ins = "PySeq List [Variable (ex_var ''x'' False)]"
         and outs = "PySeq List [Variable (ex_var ''y'' False)]" and k = List
         and self = ?self]
      ex_init
    by blast
  then have "prune_unused_params [ex_tensor ''w'' [2], ex_tensor ''b'' [3]] ex_program
      = [ex_tensor ''w'' [2]]"
    by simp
  with ex_init show ?thesis by blast
qed

section \<open>Claim C8: parameters created inside the traced function\<close>

lemma collect_names_map: "collect_names i (map VarBase P) = Inr (map vb_name P)"
  by (induction P arbitrary: i) auto

lemma check_vars_ok:
  "(check_vars names vs = Inr ()) = (\<forall>(n, v) \<in> set vs. is_parameter v \<longrightarrow> n \<in> set names)"
  by (induction names vs rule: check_vars.induct) auto

lemma check_vars_error:
  "check_vars names vs = Inl e
     \<Longrightarrow> \<exists>n v. e = ValueError n \<and> (n, v) \<in> set vs \<and> is_parameter v \<and> n \<notin> set names"
  by (induction names vs rule: check_vars.induct) (auto split: if_splits)

lemma check_blocks_ok:
  "(check_blocks names bs = Inr ()) =
     (\<forall>b \<in> set bs. \<forall>(n, v) \<in> set (vars b). is_parameter v \<longrightarrow> n \<in> set names)"
proof (induction bs)
  case Nil
  show ?case by simp
next
  case (Cons b bs)
  show ?case
  proof (cases "check_vars names (vars b)")
    case (Inl e)
    then have a: "check_blocks names (b # bs) \<noteq> Inr ()" by simp
    from Inl have "check_vars names (vars b) \<noteq> Inr ()" by simp
    then have "\<not> (\<forall>(n, v) \<in> set (vars b). is_parameter v \<longrightarrow> n \<in> set names)"
      by (simp add: check_vars_ok)
    with a show ?thesis by auto
  next
    case (Inr u)
    then have a: "check_blocks names (b # bs) = check_blocks names bs" by simp
    from Inr have "check_vars names (vars b) = Inr ()" by simp
    then have "\<forall>(n, v) \<in> set (vars b). is_parameter v \<longrightarrow> n \<in> set names"
      by (simp add: check_vars_ok)
    with Cons.IH show ?thesis unfolding a by auto
  qed
qed

lemma check_blocks_error:
  "check_blocks names bs = Inl e
     \<Longrightarrow> \<exists>n v. e = ValueError n \<and> (\<exists>b \<in> set bs. (n, v) \<in> set (vars b)) \<and> is_parameter v
           \<and> n \<notin> set names"
proof (induction bs)
  case Nil
  then show ?case by simp
next
  case (Cons b bs)
  show ?case
  proof (cases "check_vars names (vars b)")
    case (Inl e')
    with Cons.prems have "e' = e" by simp
    with check_vars_error[OF Inl] show ?thesis by auto
  next
    case (Inr u)
    with Cons.prems have "check_blocks names bs = Inl e" by simp
    from Cons.IH[OF this] show ?thesis by auto
  qed
qed

lemma check_params_tensors:
  "check_params_all_inited (PySeq k (map VarBase P)) G = check_blocks (map vb_name P) (blocks G)"
  by (simp add: check_params_all_inited_def collect_names_map)

lemma init_Inl:
  "init G ins outs (PySeq k (map VarBase P)) = Inl e \<longleftrightarrow>
   check_blocks (map vb_name P) (blocks G) = Inl e"
  by (auto simp: init_def verify_program_def check_params_tensors split: sum.splits)

text \<open>
  Claim C8, as amended. The parameters supplied are a list or tuple of tensors \<open>P\<close>.
  Whenever some block of the base graph defines a \<^verbatim>\<open>framework.Parameter\<close> under a name
  that is not the name of any tensor of \<open>P\<close>, construction fails with a
  \<^verbatim>\<open>ValueError\<close> whose message names such a variable; when every
  \<^verbatim>\<open>framework.Parameter\<close> of the graph has its name among those of \<open>P\<close>, construction
  succeeds. A persistable variable that is no \<^verbatim>\<open>framework.Parameter\<close> is not looked
  at: the check is \<^verbatim>\<open>isinstance(var, framework.Parameter)\<close>.
\<close>

theorem undeclared_parameter_fails:
  "((\<exists>n. undeclared G (vb_name ` set P) n) \<longrightarrow>
      (\<exists>n. init G ins outs (PySeq k (map VarBase P)) = Inl (ValueError n) \<and>
           undeclared G (vb_name ` set P) n)) \<and>
   ((\<forall>n. \<not> undeclared G (vb_name ` set P) n) \<longrightarrow>
      (\<exists>self. init G ins outs (PySeq k (map VarBase P)) = Inr self))"
proof (intro conjI impI)
  assume "\<exists>n. undeclared G (vb_name ` set P) n"
  then have "check_blocks (map vb_name P) (blocks G) \<noteq> Inr ()"
    by (auto simp: check_blocks_ok undeclared_def)
  then obtain e where e: "check_blocks (map vb_name P) (blocks G) = Inl e"
    by (cases "check_blocks (map vb_name P) (blocks G)") auto
  from check_blocks_error[OF e] obtain n v where
    "e = ValueError n" "\<exists>b \<in> set (blocks G). (n, v) \<in> set (vars b)" "is_parameter v"
    "n \<notin> set (map vb_name P)"
    by blast
  with e show "\<exists>n. init G ins outs (PySeq k (map VarBase P)) = Inl (ValueError n) \<and>
           undeclared G (vb_name ` set P) n"
    by (auto simp: init_Inl undeclared_def)
next
  assume "\<forall>n. \<not> undeclared G (vb_name ` set P) n"
  then have "check_blocks (map vb_name P) (blocks G) = Inr ()"
    by (auto simp: check_blocks_ok undeclared_def)
  then show "\<exists>self. init G ins outs (PySeq k (map VarBase P)) = Inr self"
    by (simp add: init_def verify_program_def check_params_tensors)
qed

lemma ex_undeclared_w: "undeclared ex_program (vb_name ` set ([] :: int varbase list)) ''w''"
  by (simp add: undeclared_def ex_program_def blocks_def ex_var_def)

lemma ex_none_undeclared:
  "\<not> undeclared ex_program (vb_name ` set [ex_tensor ''w'' [2], ex_tensor ''b'' [3]]) n"
  by (auto simp: undeclared_def ex_program_def blocks_def ex_var_def ex_tensor_def)

theorem undeclared_parameter_fails_witness:
  "undeclared ex_program (vb_name ` set ([] :: int varbase list)) ''w'' \<and>
   init ex_program (PySeq List [Variable (ex_var ''x'' False)])
        (PySeq List [Variable (ex_var ''y'' False)])
        (PySeq List (map VarBase ([] :: int varbase list))) = Inl (ValueError ''w'') \<and>
   (\<forall>n. \<not> undeclared ex_program (vb_name ` set [ex_tensor ''w'' [2], ex_tensor ''b'' [3]]) n) \<and>
   (\<exists>self. init ex_program (PySeq List [Variable (ex_var ''x'' False)])
        (PySeq List [Variable (ex_var ''y'' False)])
        (PySeq List (map VarBase [ex_tensor ''w'' [2], ex_tensor ''b'' [3]])) = Inr self)"
proof -
  let ?ins = "PySeq List [Variable (ex_var ''x'' False)] :: int pyval"
  let ?outs = "PySeq List [Variable (ex_var ''y'' False)] :: int pyval"
  have a: "init ex_program ?ins ?outs (PySeq List (map VarBase ([] :: int varbase list)))
      = Inl (ValueError ''w'')"
    by (simp add: init_def verify_program_def check_params_all_inited_def ex_program_def
        blocks_def ex_var_def)
  have b: "\<forall>n. \<not> undeclared ex_program
      (vb_name ` set [ex_tensor ''w'' [2], ex_tensor ''b'' [3]]) n"
    using ex_none_undeclared by blast
  have "\<exists>self. init ex_program ?ins ?outs
      (PySeq List (map VarBase [ex_tensor ''w'' [2], ex_tensor ''b'' [3]])) = Inr self"
    using undeclared_parameter_fails
      [where G = ex_program and P = "[ex_tensor ''w'' [2], ex_tensor ''b'' [3]]"
         and ins = ?ins and outs = ?outs and k = List] b
    by blast
  with ex_undeclared_w a b show ?thesis by blast
qed

theorem persistable_buffer_counterexample:
  "var_persistable ex_buffer \<and>
   (''mean'', ex_buffer) \<in> set (vars (global_block ex_buffer_program)) \<and>
   ''mean'' \<notin> vb_name ` set ([] :: int varbase list) \<and>
   init ex_buffer_program (PySeq List [Variable (ex_var ''x'' False)])
        (PySeq List [Variable (ex_var ''y'' False)]) (PySeq List [])
     = Inr \<lparr>inputs = NestSequence (PySeq List [Variable (ex_var ''x'' False)]),
            outputs = NestSequence (PySeq List [Variable (ex_var ''y'' False)]),
            params = ([] :: int varbase list), origin_main_program = ex_buffer_program,
            double_grads = [], training = True, infer_program_attr = None,
            train_program_attr = None, infer_builds = 0, train_builds = 0\<rparr>"
  by (simp add: init_def verify_program_def check_params_all_inited_def ex_buffer_program_def
      ex_buffer_def blocks_def ex_var_def get_double_grads_def)

section \<open>Claim C1: filtering the no-value sentinels\<close>

lemma is_no_value_sentinel:
  "holds_shape v \<Longrightarrow> is_no_value magic v = Inr (is_sentinel magic v)"
proof (cases v)
  case (VarBase t)
  assume h: "holds_shape v"
  show ?thesis
  proof (cases "vb_shape t = [1]")
    case True
    with h VarBase have "length (vb_data t) = 1" by (simp add: holds_shape_def)
    then obtain x where "vb_data t = [x]" by (cases "vb_data t") auto
    with True VarBase show ?thesis by (auto simp: is_no_value_def is_sentinel_def)
  next
    case False
    with VarBase show ?thesis by (simp add: is_no_value_def is_sentinel_def)
  qed
qed (simp_all add: is_no_value_def is_sentinel_def)

lemma keep_values_filter:
  "list_all holds_shape xs
     \<Longrightarrow> keep_values magic xs = Inr (filter (\<lambda>x. \<not> is_sentinel magic x) xs)"
  by (induction xs) (auto simp: is_no_value_sentinel)

text \<open>
  Claim C1. On values whose tensors hold as many elements as their shape says:
  \<^verbatim>\<open>_is_no_value\<close> answers true exactly for a runtime tensor of shape \<^verbatim>\<open>[1]\<close> whose
  single element is the magic constant. Filtering a single tensor gives \<^verbatim>\<open>None\<close> when
  it is a sentinel and the tensor itself otherwise. Filtering a tuple or list removes
  exactly the sentinel entries, in order: when nothing is left and something was
  removed the result is \<^verbatim>\<open>None\<close>; when one element is left and something was removed
  the result is that element; otherwise it is the filtered collection, a tuple for a
  tuple and a list for a list. Any other value is returned as it is.
\<close>

theorem remove_no_value_filters:
  "(holds_shape v \<longrightarrow> is_no_value magic v = Inr (is_sentinel magic v)) \<and>
   (holds_shape (VarBase t) \<longrightarrow>
      remove_no_value magic (VarBase t)
        = Inr (if is_sentinel magic (VarBase t) then PyNone else VarBase t)) \<and>
   (list_all holds_shape xs \<longrightarrow>
      remove_no_value magic (PySeq k xs)
        = Inr (let res = filter (\<lambda>x. \<not> is_sentinel magic x) xs in
               if length res = 0 \<and> length res < length xs then PyNone
               else if length res = 1 \<and> length res < length xs then hd res
               else PySeq k res)) \<and>
   (\<not> is_varbase out \<and> \<not> is_tuple_or_list out \<longrightarrow> remove_no_value magic out = Inr out)"
proof (intro conjI impI)
  assume "holds_shape v"
  then show "is_no_value magic v = Inr (is_sentinel magic v)" by (rule is_no_value_sentinel)
next
  assume "holds_shape (VarBase t)"
  from is_no_value_sentinel[OF this, of magic]
  show "remove_no_value magic (VarBase t)
        = Inr (if is_sentinel magic (VarBase t) then PyNone else VarBase t)"
    by (simp add: remove_no_value_def)
next
  assume "list_all holds_shape xs"
  from keep_values_filter[OF this, of magic]
  show "remove_no_value magic (PySeq k xs)
        = Inr (let res = filter (\<lambda>x. \<not> is_sentinel magic x) xs in
               if length res = 0 \<and> length res < length xs then PyNone
               else if length res = 1 \<and> length res < length xs then hd res
               else PySeq k res)"
    by (auto simp: remove_no_value_def Let_def hd_conv_nth)
next
  assume "\<not> is_varbase out \<and> \<not> is_tuple_or_list out"
  then show "remove_no_value magic out = Inr out"
    by (cases out) (simp_all add: remove_no_value_def is_varbase_def is_tuple_or_list_def)
qed

theorem remove_no_value_filters_witness:
  "holds_shape (VarBase (ex_tensor ''s'' [42])) \<and>
   is_no_value 42 (VarBase (ex_tensor ''s'' [42])) = Inr True \<and>
   remove_no_value 42 (VarBase (ex_tensor ''s'' [42])) = Inr PyNone \<and>
   list_all holds_shape [VarBase (ex_tensor ''s'' [42]), VarBase (ex_tensor ''x'' [7])] \<and>
   remove_no_value 42 (PySeq Tuple [VarBase (ex_tensor ''s'' [42]), VarBase (ex_tensor ''x'' [7])])
     = Inr (VarBase (ex_tensor ''x'' [7])) \<and>
   \<not> is_varbase (PyNone :: int pyval) \<and> \<not> is_tuple_or_list (PyNone :: int pyval) \<and>
   remove_no_value 42 (PyNone :: int pyval) = Inr PyNone"
  using remove_no_value_filters
    [where v = "VarBase (ex_tensor ''s'' [42])" and magic = 42 and t = "ex_tensor ''s'' [42]"
       and xs = "[VarBase (ex_tensor ''s'' [42]), VarBase (ex_tensor ''x'' [7])]" and k = Tuple
       and out = PyNone]
  by (simp add: holds_shape_def is_sentinel_def ex_tensor_def is_varbase_def is_tuple_or_list_def)

section \<open>The small instance, evaluated\<close>

lemma ex_layer_lists:
  "tolist (inputs ex_layer) = [Variable (ex_var ''x'' False)]"
  "tolist (outputs ex_layer) = [Variable (ex_var ''y'' False)]"
  "var_ids (outputs ex_layer) = [0]"
  by (simp_all add: ex_layer_def NestSequence_def tolist_def get_var_ids_def is_var_def)

lemma ex_prepare:
  "prepare ex_layer ex_input =
     Inr ([varbase_of_ndarray \<lparr>nd_dtype = ''float32'', nd_shape = [1], nd_data = [3]\<rparr> ''x''],
          [empty_varbase (ex_var ''y'' False)], tmp_scope_vec)"
  by (simp add: prepare_def ex_input_def input_desc_name_def getitem_def ex_layer_lists
      ex_var_def)

lemma ex_layer_fields:
  "params ex_layer = [ex_tensor ''w'' [2]]"
  "origin_main_program ex_layer = ex_program"
  "double_grads ex_layer = []"
  "training ex_layer = True"
  "infer_program_attr ex_layer = None"
  "train_program_attr ex_layer = None"
  "infer_builds ex_layer = 0"
  "train_builds ex_layer = 0"
  by (simp_all add: ex_layer_def)

lemma ex_train_build:
  "append_backward_desc ex_env ex_layer ex_program = Inr ex_train_program"
  by (simp add: append_backward_desc_def ex_layer_lists clone_def change_is_test_status_def
      change_block_is_test_def change_op_is_test_def has_attr_def set_attr_def
      ex_program_def ex_mul_def ex_env_def find_var_def ex_train_program_def ex_layer_fields
      Let_def ex_var_def)

lemma ex_infer_build: "clone_for_test ex_program = ex_infer_program"
  by (simp add: clone_for_test_def clone_def has_attr_def set_attr_def ex_program_def ex_mul_def
      ex_infer_program_def)

lemma ex_set_grad_type:
  "set_grad_type ex_env [ex_tensor ''w'' [2]] ex_train_program = [ex_tensor ''w'' [2]]"
  by (simp add: set_grad_type_def ex_env_def ex_train_program_def find_var_def)

lemma ex_get_train:
  "get_train_program ex_env ex_layer = Inr (ex_train_program, ex_layer_trained)"
  using ex_train_build ex_set_grad_type
  by (simp add: get_train_program_def LazyInitialized_get_def train_program_function_def
      ex_layer_def ex_layer_trained_def)

lemma get_infer_program_None:
  "infer_program_attr s = None \<Longrightarrow>
   get_infer_program env s =
     Inr (clone_for_test (origin_main_program s),
          s\<lparr>infer_builds := Suc (infer_builds s),
            infer_program_attr := Some (clone_for_test (origin_main_program s))\<rparr>)"
  by (simp add: get_infer_program_def LazyInitialized_get_def infer_program_function_def)

lemma get_infer_program_Some:
  "infer_program_attr s = Some p \<Longrightarrow> get_infer_program env s = Inr (p, s)"
  by (simp add: get_infer_program_def)

lemma get_train_program_Some:
  "train_program_attr s = Some p \<Longrightarrow> get_train_program env s = Inr (p, s)"
  by (simp add: get_train_program_def)

lemma ex_get_infer:
  "get_infer_program ex_env ex_layer_trained = Inr (ex_infer_program, ex_layer_built)"
proof -
  have "infer_program_attr ex_layer_trained = None"
    by (simp add: ex_layer_trained_def ex_layer_def)
  from get_infer_program_None[OF this, of ex_env] show ?thesis
    by (simp add: ex_infer_build ex_layer_trained_def ex_layer_built_def ex_layer_def)
qed

lemma ex_built_fields:
  "params ex_layer_built = [ex_tensor ''w'' [2]]"
  "double_grads ex_layer_built = []"
  "training ex_layer_built = True"
  "infer_program_attr ex_layer_built = Some ex_infer_program"
  "train_program_attr ex_layer_built = Some ex_train_program"
  "infer_builds ex_layer_built = 1"
  "train_builds ex_layer_built = 1"
  "outputs ex_layer_built = outputs ex_layer"
  by (simp_all add: ex_layer_built_def ex_layer_def)

lemma ex_trace_op_args:
  "trace_op_args ex_env ex_layer ins outs sv =
     (Inr \<lparr>X = valid_vars ins, Params = [ex_tensor ''w'' [2]], Out = valid_vars outs,
           OutScope = sv, DOut = [Fake_var], arg_global_block = global_block ex_train_program,
           start_op_index = 0, end_op_index = 1, is_test = False\<rparr>, ex_layer_built)"
  by (simp add: trace_op_args_def get_program_def ex_layer_fields ex_get_train ex_get_infer
      ex_built_fields valid_vars_def op_size_def ex_infer_program_def)

section \<open>Claim C9: no empty list reaches the interpreter\<close>

lemma valid_vars_nonempty [simp]: "valid_vars vs \<noteq> []"
  by (simp add: valid_vars_def)

lemma guarded_fields:
  "MAGIC_NUM (guarded env) = MAGIC_NUM env"
  "grad_var_suffix (guarded env) = grad_var_suffix env"
  "block_var (guarded env) = block_var env"
  "gradients (guarded env) = gradients env"
  "object_len (guarded env) = object_len env"
  "object_getitem0 (guarded env) = object_getitem0 env"
  by (simp_all add: guarded_def)

lemma collect_targets_guarded:
  "collect_targets (guarded env) p outs = collect_targets env p outs"
  by (induction outs) (auto simp: guarded_fields split: pyval.splits sum.splits)

lemma train_program_function_guarded:
  "train_program_function (guarded env) = train_program_function env"
proof
  fix s
  have a: "append_backward_desc (guarded env) s (origin_main_program s)
      = append_backward_desc env s (origin_main_program s)"
    by (simp add: append_backward_desc_def collect_targets_guarded guarded_fields
        cong: sum.case_cong if_cong)
  have b: "set_grad_type (guarded env) = set_grad_type env"
    by (rule ext)+ (simp add: set_grad_type_def guarded_fields)
  show "train_program_function (guarded env) s = train_program_function env s"
    by (simp add: train_program_function_def a b split: sum.splits)
qed

lemma infer_program_function_guarded:
  "infer_program_function (guarded env) = infer_program_function env"
  by (rule ext) (simp add: infer_program_function_def)

lemma get_infer_program_guarded: "get_infer_program (guarded env) = get_infer_program env"
  by (rule ext)
    (simp add: get_infer_program_def infer_program_function_guarded cong: option.case_cong)

lemma get_program_guarded: "get_program (guarded env) = get_program env"
  by (rule ext)
    (simp add: get_program_def get_train_program_def train_program_function_guarded
      get_infer_program_guarded cong: option.case_cong)

lemma trace_op_args_guarded:
  "trace_op_args (guarded env) s i out sv = trace_op_args env s i out sv"
  by (simp add: trace_op_args_def get_program_guarded get_infer_program_guarded
      cong: sum.case_cong prod.case_cong)

lemma restore_out_guarded: "restore_out (guarded env) s out = restore_out env s out"
proof -
  have "py_len (guarded env) = py_len env" "py_getitem0 (guarded env) = py_getitem0 env"
    by (rule ext, simp add: py_len_def py_getitem0_def guarded_fields split: pyval.splits)+
  then show ?thesis by (simp add: restore_out_def split: sum.splits)
qed

lemma trace_op_args_lists:
  assumes "trace_op_args env self in_vars out_vars sv = (Inr args, self')"
  shows "X args = valid_vars in_vars \<and> Params args = valid_vars (params self') \<and>
         Out args = valid_vars out_vars \<and> DOut args = valid_vars (double_grads self')"
  using assms
  by (auto simp: trace_op_args_def split: sum.splits prod.splits)

text \<open>
  Claim C9. \<^verbatim>\<open>valid_vars\<close> returns its list when it is not empty and one synthetic
  placeholder tensor otherwise. In every call of \<^verbatim>\<open>forward\<close> that reaches the
  interpreter, the prepared inputs, the pruned parameters, the output placeholders and
  the double-gradient list each pass through \<^verbatim>\<open>valid_vars\<close>, so none of the four
  lists handed over is empty: \<^verbatim>\<open>forward\<close> behaves the same with an interpreter that
  refuses an empty list.
\<close>

theorem interpreter_lists_nonempty:
  "valid_vars vs = (if vs = [] then [Fake_var] else vs) \<and>
   (trace_op_args env self in_vars out_vars sv = (Inr args, self') \<longrightarrow>
      X args = valid_vars in_vars \<and> Params args = valid_vars (params self') \<and>
      Out args = valid_vars out_vars \<and> DOut args = valid_vars (double_grads self') \<and>
      X args \<noteq> [] \<and> Params args \<noteq> [] \<and> Out args \<noteq> [] \<and> DOut args \<noteq> []) \<and>
   forward (guarded env) self ins = forward env self ins"
proof (intro conjI impI)
  show "valid_vars vs = (if vs = [] then [Fake_var] else vs)"
    by (simp add: valid_vars_def)
next
  show "forward (guarded env) self ins = forward env self ins"
  proof (cases "prepare self ins")
    case (Inl e)
    then show ?thesis by (simp add: forward_def)
  next
    case (Inr r)
    obtain in_vars out_vars sv where r: "r = (in_vars, out_vars, sv)" by (cases r) auto
    obtain res self' where t: "trace_op_args env self in_vars out_vars sv = (res, self')"
      by (cases "trace_op_args env self in_vars out_vars sv") auto
    show ?thesis
    proof (cases res)
      case (Inl e)
      with Inr r t show ?thesis by (simp add: forward_def trace_op_args_guarded)
    next
      case (Inr args)
      with t have "trace_op_args env self in_vars out_vars sv = (Inr args, self')" by simp
      from trace_op_args_lists[OF this]
      have "trace_op (guarded env) args = trace_op env args"
        by (simp add: guarded_def)
      moreover have "MAGIC_NUM (guarded env) = MAGIC_NUM env" by (simp add: guarded_def)
      ultimately show ?thesis using \<open>prepare self ins = Inr r\<close> r t Inr
        by (simp add: forward_def trace_op_args_guarded restore_out_guarded
            split: sum.splits)
    qed
  qed
qed (auto dest: trace_op_args_lists)

theorem interpreter_lists_nonempty_witness:
  "trace_op_args ex_env ex_layer [] [] tmp_scope_vec =
     (Inr \<lparr>X = [Fake_var], Params = [ex_tensor ''w'' [2]], Out = [Fake_var],
           OutScope = tmp_scope_vec, DOut = [Fake_var],
           arg_global_block = global_block ex_train_program,
           start_op_index = 0, end_op_index = 1, is_test = False\<rparr>, ex_layer_built) \<and>
   valid_vars ([] :: int varbase list) = [Fake_var] \<and>
   valid_vars (params ex_layer_built) = [ex_tensor ''w'' [2]] \<and>
   valid_vars (double_grads ex_layer_built) = [Fake_var]"
  using interpreter_lists_nonempty
    [where env = ex_env and self = ex_layer and in_vars = "[]" and out_vars = "[]"
       and sv = tmp_scope_vec and self' = ex_layer_built
       and args = "\<lparr>X = [Fake_var], Params = [ex_tensor ''w'' [2]], Out = [Fake_var],
           OutScope = tmp_scope_vec, DOut = [Fake_var],
           arg_global_block = global_block ex_train_program,
           start_op_index = 0, end_op_index = 1, is_test = False\<rparr>"
       and vs = "[]"]
    ex_trace_op_args [of "[]" "[]" tmp_scope_vec]
  by (simp add: valid_vars_def)

section \<open>Claim C10: forward builds the inference program\<close>

lemma get_infer_program_total:
  "\<exists>q s'. get_infer_program env s = Inr (q, s') \<and> infer_program_attr s' = Some q"
proof (cases "infer_program_attr s")
  case None
  from get_infer_program_None[OF this, of env] show ?thesis by simp
next
  case (Some p)
  from get_infer_program_Some[OF this, of env] Some show ?thesis by simp
qed

lemma forward_snd:
  "prepare self ins = Inr (in_vars, out_vars, sv)
     \<Longrightarrow> snd (forward env self ins) = snd (trace_op_args env self in_vars out_vars sv)"
  by (simp add: forward_def split: prod.splits sum.splits)

lemma trace_op_args_infer:
  assumes "trace_op_args env self in_vars out_vars sv = (Inr args, self')"
  shows "\<exists>p. infer_program_attr self' = Some p \<and> end_op_index args = op_size (global_block p)"
proof -
  from assms obtain prog s1 where g: "get_program env self = Inr (prog, s1)"
    by (auto simp: trace_op_args_def split: sum.splits)
  from get_infer_program_total[of env s1] obtain q s2 where
    q: "get_infer_program env s1 = Inr (q, s2)" "infer_program_attr s2 = Some q"
    by blast
  with assms g have "self' = s2" "end_op_index args = op_size (global_block q)"
    by (auto simp: trace_op_args_def)
  with q show ?thesis by simp
qed

lemma trace_op_args_reached:
  assumes "get_program env self = Inr gp"
  shows "\<exists>args self'. trace_op_args env self in_vars out_vars sv = (Inr args, self')"
proof -
  obtain prog s1 where gp: "gp = (prog, s1)" by (cases gp) auto
  from get_infer_program_total[of env s1] obtain q s2 where
    "get_infer_program env s1 = Inr (q, s2)" by blast
  with assms gp show ?thesis by (simp add: trace_op_args_def)
qed

text \<open>
  Claim C10. Whatever the mode, the end of the operator range handed to the interpreter
  is the operator count of block 0 of the inference program, read through
  \<^verbatim>\<open>self._infer_program\<close>: whenever \<^verbatim>\<open>forward\<close> gets as far as the arguments of
  the interpreter, the instance it leaves holds its inference program. That is the case
  for every call whose inputs pass \<^verbatim>\<open>_prepare\<close> and, in training mode, whose training
  program is built without an error; in inference mode nothing more is needed.
\<close>

theorem forward_builds_infer_program:
  "(trace_op_args env self in_vars out_vars sv = (Inr args, self') \<longrightarrow>
      (\<exists>p. infer_program_attr self' = Some p \<and>
           start_op_index args = 0 \<and> end_op_index args = op_size (global_block p))) \<and>
   (prepare self ins = Inr pr \<and> get_program env self = Inr gp \<longrightarrow>
      (\<exists>p. infer_program_attr (snd (forward env self ins)) = Some p)) \<and>
   (prepare self ins = Inr pr \<and> \<not> training self \<longrightarrow>
      (\<exists>p. infer_program_attr (snd (forward env self ins)) = Some p))"
proof (intro conjI impI)
  assume a: "trace_op_args env self in_vars out_vars sv = (Inr args, self')"
  then have "start_op_index args = 0"
    by (auto simp: trace_op_args_def split: sum.splits)
  with trace_op_args_infer[OF a]
  show "\<exists>p. infer_program_attr self' = Some p \<and>
           start_op_index args = 0 \<and> end_op_index args = op_size (global_block p)"
    by blast
next
  assume a: "prepare self ins = Inr pr \<and> get_program env self = Inr gp"
  obtain i out sv where pr: "pr = (i, out, sv)" by (cases pr) auto
  from a trace_op_args_reached obtain args self' where
    t: "trace_op_args env self i out sv = (Inr args, self')"
    by blast
  from a pr forward_snd[of self ins i out sv env] t
  have "snd (forward env self ins) = self'" by simp
  with trace_op_args_infer[OF t]
  show "\<exists>p. infer_program_attr (snd (forward env self ins)) = Some p" by auto
next
  assume a: "prepare self ins = Inr pr \<and> \<not> training self"
  obtain i out sv where pr: "pr = (i, out, sv)" by (cases pr) auto
  from get_infer_program_total[of env self] a obtain gp where "get_program env self = Inr gp"
    by (auto simp: get_program_def)
  from trace_op_args_reached[OF this] obtain args self' where
    t: "trace_op_args env self i out sv = (Inr args, self')"
    by blast
  from a pr forward_snd[of self ins i out sv env] t
  have "snd (forward env self ins) = self'" by simp
  with trace_op_args_infer[OF t]
  show "\<exists>p. infer_program_attr (snd (forward env self ins)) = Some p" by auto
qed

lemma ex_get_program: "get_program ex_env ex_layer = Inr (ex_train_program, ex_layer_trained)"
  by (simp add: get_program_def ex_layer_fields ex_get_train)

lemma ex_forward_snd: "snd (forward ex_env ex_layer ex_input) = ex_layer_built"
  using forward_snd[OF ex_prepare, of ex_env] by (simp add: ex_trace_op_args)

theorem forward_builds_infer_program_witness:
  "training ex_layer \<and>
   prepare ex_layer ex_input =
     Inr ([varbase_of_ndarray \<lparr>nd_dtype = ''float32'', nd_shape = [1], nd_data = [3]\<rparr> ''x''],
          [empty_varbase (ex_var ''y'' False)], tmp_scope_vec) \<and>
   get_program ex_env ex_layer = Inr (ex_train_program, ex_layer_trained) \<and>
   infer_program_attr ex_layer = None \<and>
   infer_program_attr (snd (forward ex_env ex_layer ex_input)) = Some ex_infer_program \<and>
   prepare (ex_layer\<lparr>training := False\<rparr>) ex_input =
     Inr ([varbase_of_ndarray \<lparr>nd_dtype = ''float32'', nd_shape = [1], nd_data = [3]\<rparr> ''x''],
          [empty_varbase (ex_var ''y'' False)], tmp_scope_vec) \<and>
   \<not> training (ex_layer\<lparr>training := False\<rparr>) \<and>
   (\<exists>p. infer_program_attr (snd (forward ex_env (ex_layer\<lparr>training := False\<rparr>) ex_input)) = Some p)"
proof -
  have p2: "prepare (ex_layer\<lparr>training := False\<rparr>) ex_input =
     Inr ([varbase_of_ndarray \<lparr>nd_dtype = ''float32'', nd_shape = [1], nd_data = [3]\<rparr> ''x''],
          [empty_varbase (ex_var ''y'' False)], tmp_scope_vec)"
    using ex_layer_lists
    by (simp add: prepare_def ex_input_def input_desc_name_def getitem_def ex_var_def
        ex_layer_def)
  have "\<exists>p. infer_program_attr (snd (forward ex_env (ex_layer\<lparr>training := False\<rparr>) ex_input)) = Some p"
    using forward_builds_infer_program
      [where self = "ex_layer\<lparr>training := False\<rparr>" and ins = ex_input and env = ex_env
         and pr = "([varbase_of_ndarray \<lparr>nd_dtype = ''float32'', nd_shape = [1], nd_data = [3]\<rparr> ''x''],
          [empty_varbase (ex_var ''y'' False)], tmp_scope_vec)"]
      p2
    by simp
  with p2 ex_prepare ex_get_program ex_forward_snd show ?thesis
    by (simp add: ex_layer_fields ex_built_fields)
qed

section \<open>Claim C3: each program is built at most once\<close>

lemma keeps_programs_refl [simp]: "keeps_programs s s"
  by (simp add: keeps_programs_def)

lemma keeps_programs_trans:
  "keeps_programs s s' \<Longrightarrow> keeps_programs s' s'' \<Longrightarrow> keeps_programs s s''"
  by (auto simp: keeps_programs_def)

lemma get_train_program_None:
  "train_program_attr s = None \<Longrightarrow> get_train_program env s = Inr (p, s')
     \<Longrightarrow> s' = s\<lparr>params := set_grad_type env (params s) p,
                 train_builds := Suc (train_builds s), train_program_attr := Some p\<rparr>"
  by (auto simp: get_train_program_def LazyInitialized_get_def train_program_function_def
      split: sum.splits)

lemma get_infer_program_keeps:
  assumes "get_infer_program env s = Inr (p, s')"
  shows "keeps_programs s s'"
proof (cases "infer_program_attr s")
  case None
  from get_infer_program_None[OF this, of env] assms None show ?thesis
    by (auto simp: keeps_programs_def)
next
  case (Some q)
  from get_infer_program_Some[OF this, of env] assms show ?thesis by auto
qed

lemma get_infer_program_inv:
  assumes "get_infer_program env s = Inr (p, s')" "build_counts_ok s"
  shows "build_counts_ok s'"
proof (cases "infer_program_attr s")
  case None
  from get_infer_program_None[OF this, of env] assms None show ?thesis
    by (auto simp: build_counts_ok_def)
next
  case (Some q)
  from get_infer_program_Some[OF this, of env] assms show ?thesis by auto
qed

lemma get_train_program_keeps:
  assumes "get_train_program env s = Inr (p, s')"
  shows "keeps_programs s s'"
proof (cases "train_program_attr s")
  case None
  from get_train_program_None[OF this assms(1)] None show ?thesis
    by (auto simp: keeps_programs_def)
next
  case (Some q)
  from get_train_program_Some[OF this, of env] assms show ?thesis by auto
qed

lemma get_train_program_inv:
  assumes "get_train_program env s = Inr (p, s')" "build_counts_ok s"
  shows "build_counts_ok s'"
proof (cases "train_program_attr s")
  case None
  from get_train_program_None[OF this assms(1)] assms(2) None show ?thesis
    by (auto simp: build_counts_ok_def)
next
  case (Some q)
  from get_train_program_Some[OF this, of env] assms show ?thesis by auto
qed

lemma trace_op_args_steps:
  "snd (trace_op_args env s i out sv) = s \<or>
   (\<exists>prog s1 q. get_program env s = Inr (prog, s1) \<and>
      get_infer_program env s1 = Inr (q, snd (trace_op_args env s i out sv)))"
proof (cases "get_program env s")
  case (Inl e)
  then show ?thesis by (simp add: trace_op_args_def)
next
  case (Inr gp)
  obtain prog s1 where gp: "gp = (prog, s1)" by (cases gp) auto
  from get_infer_program_total[of env s1] obtain q s2 where
    q: "get_infer_program env s1 = Inr (q, s2)" by blast
  with Inr gp show ?thesis by (simp add: trace_op_args_def)
qed

lemma get_program_keeps: "get_program env s = Inr (p, s') \<Longrightarrow> keeps_programs s s'"
  using get_train_program_keeps get_infer_program_keeps
  by (auto simp: get_program_def split: if_splits)

lemma get_program_inv:
  "get_program env s = Inr (p, s') \<Longrightarrow> build_counts_ok s \<Longrightarrow> build_counts_ok s'"
  using get_train_program_inv get_infer_program_inv
  by (auto simp: get_program_def split: if_splits)

lemma trace_op_args_keeps: "keeps_programs s (snd (trace_op_args env s i out sv))"
  using trace_op_args_steps[of env s i out sv] get_program_keeps get_infer_program_keeps
    keeps_programs_trans
  by (metis keeps_programs_refl)

lemma trace_op_args_inv:
  "build_counts_ok s \<Longrightarrow> build_counts_ok (snd (trace_op_args env s i out sv))"
  using trace_op_args_steps[of env s i out sv] get_program_inv get_infer_program_inv
  by metis

lemma forward_steps:
  "snd (forward env s ins) = s \<or>
   (\<exists>i out sv. snd (forward env s ins) = snd (trace_op_args env s i out sv))"
proof (cases "prepare s ins")
  case (Inl e)
  then show ?thesis by (simp add: forward_def)
next
  case (Inr pr)
  obtain i out sv where "pr = (i, out, sv)" by (cases pr) auto
  with Inr forward_snd[of s ins i out sv env] show ?thesis by auto
qed

lemma step_keeps: "keeps_programs s (step env s ev)"
proof (cases ev)
  case (Forward ins)
  with forward_steps[of env s ins] trace_op_args_keeps show ?thesis by auto
next
  case (SetTraining b)
  then show ?thesis by (simp add: keeps_programs_def)
qed

lemma step_inv: "build_counts_ok s \<Longrightarrow> build_counts_ok (step env s ev)"
proof (cases ev)
  case (Forward ins)
  assume "build_counts_ok s"
  with Forward forward_steps[of env s ins] trace_op_args_inv show ?thesis by auto
next
  case (SetTraining b)
  assume "build_counts_ok s"
  with SetTraining show ?thesis by (simp add: build_counts_ok_def)
qed

lemma run_events_keeps: "keeps_programs s (run_events env s evs)"
proof (induction evs arbitrary: s)
  case Nil
  show ?case by (simp add: run_events_def)
next
  case (Cons ev evs)
  from step_keeps[of s env ev] Cons[of "step env s ev"] show ?case
    using keeps_programs_trans by (auto simp: run_events_def)
qed

lemma run_events_inv: "build_counts_ok s \<Longrightarrow> build_counts_ok (run_events env s evs)"
proof (induction evs arbitrary: s)
  case Nil
  then show ?case by (simp add: run_events_def)
next
  case (Cons ev evs)
  from Cons.IH[OF step_inv[OF Cons.prems, of env ev]] show ?case
    by (simp add: run_events_def)
qed

lemma init_counts:
  "init G ins outs ps = Inr s
     \<Longrightarrow> build_counts_ok s \<and> infer_program_attr s = None \<and> train_program_attr s = None"
  by (auto simp: init_def build_counts_ok_def split: sum.splits)

text \<open>
  Claim C3. Over the life of an instance, whatever the calls of \<^verbatim>\<open>forward\<close> and the
  assignments to the training flag and in whatever order, the function that derives
  the inference program and the one that derives the training program each return at
  most once. A read of a program that the instance holds returns it and leaves the
  instance as it is, and the instance holds it ever after; a read of a program that is
  absent runs the derivation and stores its value. (A derivation that raises stores
  nothing; the count is of the derivations that returned.)
\<close>

theorem programs_built_at_most_once:
  "(init G ins outs ps = Inr self0 \<longrightarrow>
      infer_builds (run_events env self0 evs) \<le> 1 \<and>
      train_builds (run_events env self0 evs) \<le> 1) \<and>
   (infer_program_attr s = Some p \<longrightarrow>
      get_infer_program env s = Inr (p, s) \<and>
      infer_program_attr (run_events env s evs) = Some p) \<and>
   (train_program_attr s = Some p \<longrightarrow>
      get_train_program env s = Inr (p, s) \<and>
      train_program_attr (run_events env s evs) = Some p) \<and>
   (infer_program_attr s = None \<longrightarrow>
      (\<exists>q s'. get_infer_program env s = Inr (q, s') \<and> infer_program_attr s' = Some q \<and>
              infer_builds s' = Suc (infer_builds s))) \<and>
   (train_program_attr s = None \<and> get_train_program env s = Inr (q, s') \<longrightarrow>
      train_program_attr s' = Some q \<and> train_builds s' = Suc (train_builds s))"
proof (intro conjI impI)
  assume "init G ins outs ps = Inr self0"
  from init_counts[OF this] have "build_counts_ok self0" by simp
  from run_events_inv[OF this, of env evs]
  show "infer_builds (run_events env self0 evs) \<le> 1"
    and "train_builds (run_events env self0 evs) \<le> 1"
    by (simp_all add: build_counts_ok_def)
next
  assume a: "infer_program_attr s = Some p"
  then show "get_infer_program env s = Inr (p, s)" by (rule get_infer_program_Some)
  from a run_events_keeps[of s env evs]
  show "infer_program_attr (run_events env s evs) = Some p"
    by (simp add: keeps_programs_def)
next
  assume a: "train_program_attr s = Some p"
  then show "get_train_program env s = Inr (p, s)" by (rule get_train_program_Some)
  from a run_events_keeps[of s env evs]
  show "train_program_attr (run_events env s evs) = Some p"
    by (simp add: keeps_programs_def)
next
  assume "infer_program_attr s = None"
  from get_infer_program_None[OF this, of env]
  show "\<exists>q s'. get_infer_program env s = Inr (q, s') \<and> infer_program_attr s' = Some q \<and>
              infer_builds s' = Suc (infer_builds s)"
    by simp
next
  assume a: "train_program_attr s = None \<and> get_train_program env s = Inr (q, s')"
  then have "s' = s\<lparr>params := set_grad_type env (params s) q,
                 train_builds := Suc (train_builds s), train_program_attr := Some q\<rparr>"
    using get_train_program_None by blast
  then show "train_program_attr s' = Some q" and "train_builds s' = Suc (train_builds s)"
    by simp_all
qed

lemma ex_init_layer:
  "init ex_program (PySeq List [Variable (ex_var ''x'' False)])
        (PySeq List [Variable (ex_var ''y'' False)])
        (PySeq List (map VarBase [ex_tensor ''w'' [2], ex_tensor ''b'' [3]])) = Inr ex_layer"
  using ex_init by (simp add: ex_layer_def)

lemma ex_second_forward:
  "snd (forward ex_env (ex_layer_built\<lparr>training := False\<rparr>) ex_input)
     = ex_layer_built\<lparr>training := False\<rparr>"
proof -
  let ?s = "ex_layer_built\<lparr>training := False\<rparr>"
  have a: "infer_program_attr ?s = Some ex_infer_program" "\<not> training ?s"
    by (simp_all add: ex_built_fields)
  have "get_program ex_env ?s = Inr (ex_infer_program, ?s)"
    using get_infer_program_Some[OF a(1), of ex_env] a(2) by (simp add: get_program_def)
  with get_infer_program_Some[OF a(1), of ex_env]
  have "snd (trace_op_args ex_env ?s i out sv) = ?s" for i out sv
    by (simp add: trace_op_args_def)
  with forward_steps[of ex_env ?s ex_input] show ?thesis by auto
qed

lemma ex_run:
  "run_events ex_env ex_layer [Forward ex_input, SetTraining False, Forward ex_input]
     = ex_layer_built\<lparr>training := False\<rparr>"
  by (simp add: run_events_def ex_forward_snd ex_second_forward)

theorem programs_built_at_most_once_witness:
  "init ex_program (PySeq List [Variable (ex_var ''x'' False)])
        (PySeq List [Variable (ex_var ''y'' False)])
        (PySeq List (map VarBase [ex_tensor ''w'' [2], ex_tensor ''b'' [3]])) = Inr ex_layer \<and>
   run_events ex_env ex_layer [Forward ex_input, SetTraining False, Forward ex_input]
     = ex_layer_built\<lparr>training := False\<rparr> \<and>
   infer_builds (run_events ex_env ex_layer
     [Forward ex_input, SetTraining False, Forward ex_input]) \<le> 1 \<and>
   train_builds (run_events ex_env ex_layer
     [Forward ex_input, SetTraining False, Forward ex_input]) \<le> 1 \<and>
   infer_program_attr ex_layer_built = Some ex_infer_program \<and>
   get_infer_program ex_env ex_layer_built = Inr (ex_infer_program, ex_layer_built) \<and>
   train_program_attr ex_layer_built = Some ex_train_program \<and>
   get_train_program ex_env ex_layer_built = Inr (ex_train_program, ex_layer_built) \<and>
   infer_program_attr ex_layer_trained = None \<and>
   get_infer_program ex_env ex_layer_trained = Inr (ex_infer_program, ex_layer_built) \<and>
   train_program_attr ex_layer = None \<and>
   get_train_program ex_env ex_layer = Inr (ex_train_program, ex_layer_trained) \<and>
   train_program_attr ex_layer_trained = Some ex_train_program \<and>
   train_builds ex_layer_trained = Suc (train_builds ex_layer)"
proof -
  note t = programs_built_at_most_once
    [where G = ex_program and ins = "PySeq List [Variable (ex_var ''x'' False)]"
       and outs = "PySeq List [Variable (ex_var ''y'' False)]"
       and ps = "PySeq List (map VarBase [ex_tensor ''w'' [2], ex_tensor ''b'' [3]])"
       and ?self0.0 = ex_layer and env = ex_env
       and evs = "[Forward ex_input, SetTraining False, Forward ex_input]"]
  have a: "infer_builds (run_events ex_env ex_layer
        [Forward ex_input, SetTraining False, Forward ex_input]) \<le> 1 \<and>
      train_builds (run_events ex_env ex_layer
        [Forward ex_input, SetTraining False, Forward ex_input]) \<le> 1"
    using t[where s = ex_layer and p = ex_train_program and q = ex_train_program
        and s' = ex_layer_trained] ex_init_layer
    by blast
  have b: "train_program_attr ex_layer_trained = Some ex_train_program"
    "train_builds ex_layer_trained = Suc (train_builds ex_layer)"
    "infer_program_attr ex_layer_trained = None"
    by (simp_all add: ex_layer_trained_def ex_layer_def)
  from a b ex_init_layer ex_run ex_get_infer ex_get_train show ?thesis
    by (simp add: ex_built_fields ex_layer_fields get_infer_program_Some
        get_train_program_Some)
qed

section \<open>Claim C5: no backward construction without parameters or tensor outputs\<close>

lemma collect_targets_gradients:
  "collect_targets (env\<lparr>gradients := g\<rparr>) p outs = collect_targets env p outs"
  by (induction outs) (auto split: pyval.splits sum.splits)

lemma collect_targets_no_Variable:
  "\<not> list_ex is_Variable outs \<Longrightarrow> collect_targets env p outs = Inr []"
  by (induction outs) (auto simp: is_Variable_def split: pyval.splits)

lemma change_is_test_status_op_size:
  "op_size (global_block (change_is_test_status p b)) = op_size (global_block p)"
  by (simp add: change_is_test_status_def change_block_is_test_def op_size_def)

lemma clone_op_size: "op_size (global_block (clone p b)) = op_size (global_block p)"
  by (simp add: clone_def op_size_def)

lemma append_backward_desc_skips:
  assumes "params self = [] \<or> \<not> list_ex is_Variable (tolist (outputs self))"
  shows "append_backward_desc env self main =
     (case collect_targets env (change_is_test_status (clone main False) False)
             (tolist (outputs self)) of
        Inl e \<Rightarrow> Inl e
      | Inr targets \<Rightarrow> Inr (change_is_test_status (clone main False) False))"
  using assms
  by (auto simp: append_backward_desc_def Let_def collect_targets_no_Variable
      split: sum.splits)

text \<open>
  Claim C5. When the pruned parameter list is empty, or no flattened output is a
  \<^verbatim>\<open>framework.Variable\<close>, building the training program does not call the autodiff
  engine: the result is the same whatever the engine is. With no tensor output it is
  the duplicate of the base program with \<^verbatim>\<open>is_test\<close> cleared; with no parameter, a
  training program that is built is that duplicate too, and block 0 has as many
  operators as block 0 of the inference program.
\<close>

theorem no_backward_without_params_or_targets:
  "(params self = [] \<or> \<not> list_ex is_Variable (tolist (outputs self)) \<longrightarrow>
      append_backward_desc (env\<lparr>gradients := g\<rparr>) self main
        = append_backward_desc env self main) \<and>
   (\<not> list_ex is_Variable (tolist (outputs self)) \<longrightarrow>
      append_backward_desc env self main
        = Inr (change_is_test_status (clone main False) False)) \<and>
   (params self = [] \<and> train_program_function env self = Inr (train_program, self') \<longrightarrow>
      train_program = change_is_test_status (clone (origin_main_program self) False) False \<and>
      op_size (global_block train_program)
        = op_size (global_block (clone_for_test (origin_main_program self))))"
proof (intro conjI impI)
  assume a: "params self = [] \<or> \<not> list_ex is_Variable (tolist (outputs self))"
  from append_backward_desc_skips[OF a, of "env\<lparr>gradients := g\<rparr>" main]
    append_backward_desc_skips[OF a, of env main]
  show "append_backward_desc (env\<lparr>gradients := g\<rparr>) self main
        = append_backward_desc env self main"
    by (simp add: collect_targets_gradients)
next
  assume a: "\<not> list_ex is_Variable (tolist (outputs self))"
  then show "append_backward_desc env self main
        = Inr (change_is_test_status (clone main False) False)"
    using append_backward_desc_skips[of self env main]
    by (simp add: collect_targets_no_Variable)
next
  assume a: "params self = [] \<and> train_program_function env self = Inr (train_program, self')"
  then have "append_backward_desc env self (origin_main_program self) = Inr train_program"
    by (auto simp: train_program_function_def split: sum.splits)
  with a append_backward_desc_skips[of self env "origin_main_program self"]
  show t: "train_program = change_is_test_status (clone (origin_main_program self) False) False"
    by (auto split: sum.splits)
  show "op_size (global_block train_program)
        = op_size (global_block (clone_for_test (origin_main_program self)))"
    unfolding t by (simp add: change_is_test_status_op_size clone_op_size clone_for_test_def)
qed

lemma ex_is_test_False: "change_is_test_status (clone ex_program False) False = ex_program"
  by (simp add: clone_def change_is_test_status_def change_block_is_test_def
      change_op_is_test_def has_attr_def set_attr_def ex_program_def ex_mul_def)

theorem no_backward_without_params_or_targets_witness:
  "params (ex_layer\<lparr>params := []\<rparr>) = [] \<and>
   train_program_function ex_env (ex_layer\<lparr>params := []\<rparr>)
     = Inr (ex_program, ex_layer\<lparr>params := [], train_builds := 1\<rparr>) \<and>
   append_backward_desc ex_env ex_layer ex_program = Inr ex_train_program \<and>
   op_size (global_block ex_train_program) = 2 \<and>
   op_size (global_block ex_program) = 1 \<and>
   op_size (global_block (clone_for_test (origin_main_program (ex_layer\<lparr>params := []\<rparr>)))) = 1 \<and>
   \<not> list_ex is_Variable (tolist (outputs (ex_layer\<lparr>outputs := NestSequence (PySeq List [Opaque ''c''])\<rparr>))) \<and>
   append_backward_desc ex_env (ex_layer\<lparr>outputs := NestSequence (PySeq List [Opaque ''c''])\<rparr>)
     ex_program = Inr ex_program"
proof -
  let ?s = "ex_layer\<lparr>params := []\<rparr>"
  let ?o = "ex_layer\<lparr>outputs := NestSequence (PySeq List [Opaque ''c''])\<rparr>"
  have tl: "tolist (outputs ?s) = [Variable (ex_var ''y'' False)]"
    using ex_layer_lists by simp
  have ct: "collect_targets ex_env ex_program [Variable (ex_var ''y'' False)]
      = Inr [ex_var ''y'' False]"
    by (simp add: ex_env_def find_var_def ex_program_def ex_var_def)
  have ab: "append_backward_desc ex_env ?s ex_program = Inr ex_program"
    by (simp add: append_backward_desc_def ex_is_test_False ex_layer_lists ct
        del: collect_targets.simps)
  have tp: "train_program_function ex_env ?s
      = Inr (ex_program, ex_layer\<lparr>params := [], train_builds := 1\<rparr>)"
    using ab
    by (simp add: train_program_function_def ex_layer_fields set_grad_type_def)
  have o: "\<not> list_ex is_Variable (tolist (outputs ?o))"
    by (simp add: tolist_def NestSequence_def is_Variable_def)
  note t = no_backward_without_params_or_targets
    [where self = ?s and env = ex_env and train_program = ex_program
       and self' = "ex_layer\<lparr>params := [], train_builds := 1\<rparr>"]
  note t' = no_backward_without_params_or_targets
    [where self = ?o and env = ex_env and main = ex_program]
  have "op_size (global_block ex_program)
      = op_size (global_block (clone_for_test (origin_main_program ?s)))"
    using t tp by simp
  moreover have "op_size (global_block ex_program) = 1"
    by (simp add: op_size_def ex_program_def)
  moreover have "op_size (global_block ex_train_program) = 2"
    by (simp add: op_size_def ex_train_program_def)
  moreover have "append_backward_desc ex_env ?o ex_program = Inr ex_program"
    using t' o by (simp add: ex_is_test_False)
  ultimately show ?thesis using tp o ex_train_build by simp
qed

section \<open>Claim C4: the outputs in the structure of the template\<close>

lemma scatter_enumerate:
  assumes "distinct ids" "\<forall>idx \<in> set ids. idx < length fo" "n + length ids \<le> length out"
  shows "\<exists>fo'. scatter fo (enumerate n ids) out = Inr fo' \<and> length fo' = length fo \<and>
           (\<forall>i < length ids. fo' ! (ids ! i) = VarBase (out ! (n + i))) \<and>
           (\<forall>j < length fo. j \<notin> set ids \<longrightarrow> fo' ! j = fo ! j)"
  using assms
proof (induction ids arbitrary: fo n)
  case Nil
  then show ?case by simp
next
  case (Cons idx rest)
  let ?fo1 = "fo[idx := VarBase (out ! n)]"
  from Cons.prems have d: "distinct rest" "idx \<notin> set rest" "idx < length fo" "n < length out"
    by auto
  from Cons.prems have "\<forall>i \<in> set rest. i < length ?fo1" "Suc n + length rest \<le> length out"
    by auto
  from Cons.IH[OF d(1) this] obtain fo' where
    s: "scatter ?fo1 (enumerate (Suc n) rest) out = Inr fo'" and
    l: "length fo' = length ?fo1" and
    a: "\<forall>i < length rest. fo' ! (rest ! i) = VarBase (out ! (Suc n + i))" and
    b: "\<forall>j < length ?fo1. j \<notin> set rest \<longrightarrow> fo' ! j = ?fo1 ! j"
    by blast
  from s d have s': "scatter fo (enumerate n (idx # rest)) out = Inr fo'" by simp
  have a': "\<forall>i < length (idx # rest). fo' ! ((idx # rest) ! i) = VarBase (out ! (n + i))"
  proof (intro allI impI)
    fix i assume i: "i < length (idx # rest)"
    show "fo' ! ((idx # rest) ! i) = VarBase (out ! (n + i))"
    proof (cases i)
      case 0
      with b d show ?thesis by simp
    next
      case (Suc i')
      with a i show ?thesis by simp
    qed
  qed
  have b': "\<forall>j < length fo. j \<notin> set (idx # rest) \<longrightarrow> fo' ! j = fo ! j"
    using b by auto
  from s' l a' b' show ?case by auto
qed

lemma get_var_ids_props:
  "distinct (get_var_ids t)"
  "set (get_var_ids t) = {j. j < length (flatten t) \<and> is_var (flatten t ! j)}"
proof -
  have "distinct (map fst (enumerate 0 (flatten t)))" by simp
  then show "distinct (get_var_ids t)"
    unfolding get_var_ids_def by (rule distinct_map_filter)
  show "set (get_var_ids t) = {j. j < length (flatten t) \<and> is_var (flatten t ! j)}"
    by (auto simp: get_var_ids_def in_set_enumerate_eq image_iff)
qed

lemma restore_out_scatter:
  assumes "length out_vars = length (var_ids (outputs self))"
    and "outputs self = NestSequence t"
  shows "\<exists>fo s. scatter (tolist (outputs self)) (enumerate 0 (var_ids (outputs self))) out_vars
             = Inr fo \<and>
           length fo = length (tolist (outputs self)) \<and>
           (\<forall>i < length (var_ids (outputs self)).
              fo ! (var_ids (outputs self) ! i) = VarBase (out_vars ! i)) \<and>
           (\<forall>j < length fo. j \<notin> set (var_ids (outputs self))
              \<longrightarrow> fo ! j = tolist (outputs self) ! j) \<and>
           (\<forall>j < length fo. (j \<in> set (var_ids (outputs self)))
              = is_var (tolist (outputs self) ! j)) \<and>
           restore (outputs self) fo = Inr s \<and> same_shape t s \<and> flatten s = fo"
proof -
  let ?ids = "var_ids (outputs self)"
  let ?ls = "tolist (outputs self)"
  have ids: "?ids = get_var_ids t" and ls: "?ls = flatten t"
    using assms(2) by (simp_all add: NestSequence_def tolist_def)
  have d: "distinct ?ids" and r: "\<forall>idx \<in> set ?ids. idx < length ?ls"
    and v: "\<forall>j < length ?ls. (j \<in> set ?ids) = is_var (?ls ! j)"
    using get_var_ids_props[of t] by (auto simp: ids ls)
  from assms(1) have "0 + length ?ids \<le> length out_vars" by simp
  from scatter_enumerate[OF d r this] obtain fo where
    s: "scatter ?ls (enumerate 0 ?ids) out_vars = Inr fo" and
    l: "length fo = length ?ls" and
    a: "\<forall>i < length ?ids. fo ! (?ids ! i) = VarBase (out_vars ! i)" and
    b: "\<forall>j < length ?ls. j \<notin> set ?ids \<longrightarrow> fo ! j = ?ls ! j"
    by auto
  have leaves: "\<forall>x \<in> set fo. \<not> is_sequence x"
  proof
    fix x assume "x \<in> set fo"
    then obtain j where j: "j < length fo" "x = fo ! j" by (auto simp: in_set_conv_nth)
    show "\<not> is_sequence x"
    proof (cases "j \<in> set ?ids")
      case True
      then obtain i where "i < length ?ids" "?ids ! i = j" by (auto simp: in_set_conv_nth)
      with a j show ?thesis by auto
    next
      case False
      with b j l have "x = ?ls ! j" by simp
      moreover have "?ls ! j \<in> set (flatten t)" using j l ls by simp
      ultimately show ?thesis using flatten_leaves(1)[of t] by blast
    qed
  qed
  from l ls have "length fo = length (flatten t)" by simp
  from pack_sequence_as_ok[OF this] obtain p where
    p: "pack_sequence_as t fo = Inr p" and q: "repack t fo = Some (p, [])"
    by blast
  from p l assms(2) have rs: "restore (outputs self) fo = Inr p"
    by (simp add: restore_def NestSequence_def tolist_def)
  from repack_same_shape(1)[OF q leaves] repack_Some_flatten(1)[OF q leaves]
  have "same_shape t p" "flatten p = fo" by simp_all
  with s l a b v rs show ?thesis by auto
qed

text \<open>
  Claim C4, as amended. The output template is a tuple or a list, and there is one
  executed tensor for every recorded tensor position. Then the executed tensors are
  put at the recorded tensor positions of the flattened template, which are the
  positions of its tensor leaves, and every other leaf stays as it is in the template;
  restoring that list gives a structure isomorphic to the template. \<^verbatim>\<open>_restore_out\<close>
  returns this structure, unless the template has exactly one element: then it
  returns that element alone.
\<close>

theorem restore_out_structure:
  "outputs self = NestSequence (PySeq k xs) \<and>
   length out_vars = length (var_ids (outputs self)) \<longrightarrow>
   (\<exists>fo ys.
      length fo = length (tolist (outputs self)) \<and>
      (\<forall>i < length (var_ids (outputs self)).
         fo ! (var_ids (outputs self) ! i) = VarBase (out_vars ! i)) \<and>
      (\<forall>j < length fo. j \<notin> set (var_ids (outputs self))
         \<longrightarrow> fo ! j = tolist (outputs self) ! j) \<and>
      (\<forall>j < length fo. (j \<in> set (var_ids (outputs self)))
         = is_var (tolist (outputs self) ! j)) \<and>
      restore (outputs self) fo = Inr (PySeq k ys) \<and>
      same_shape (PySeq k xs) (PySeq k ys) \<and> flatten (PySeq k ys) = fo \<and>
      restore_out env self out_vars = Inr (if length xs = 1 then hd ys else PySeq k ys))"
proof
  assume h: "outputs self = NestSequence (PySeq k xs) \<and>
    length out_vars = length (var_ids (outputs self))"
  from restore_out_scatter[of out_vars self "PySeq k xs"] h obtain fo s where
    sc: "scatter (tolist (outputs self)) (enumerate 0 (var_ids (outputs self))) out_vars = Inr fo"
    and l: "length fo = length (tolist (outputs self))"
    and a: "\<forall>i < length (var_ids (outputs self)).
              fo ! (var_ids (outputs self) ! i) = VarBase (out_vars ! i)"
    and b: "\<forall>j < length fo. j \<notin> set (var_ids (outputs self))
              \<longrightarrow> fo ! j = tolist (outputs self) ! j"
    and v: "\<forall>j < length fo. (j \<in> set (var_ids (outputs self)))
              = is_var (tolist (outputs self) ! j)"
    and rs: "restore (outputs self) fo = Inr s"
    and sh: "same_shape (PySeq k xs) s" and fl: "flatten s = fo"
    by blast
  from sh obtain ys where s: "s = PySeq k ys" and shi: "same_shape_items xs ys"
    by (cases s) auto
  have len: "length ys = length xs"
    using shi by (induction xs arbitrary: ys) (auto split: list.splits)
  have "restore_out env self out_vars = Inr (if length xs = 1 then hd ys else PySeq k ys)"
    using sc rs s len
    by (cases ys) (auto simp: restore_out_def py_len_def py_getitem0_def)
  with l a b v rs sh fl s show "\<exists>fo ys.
      length fo = length (tolist (outputs self)) \<and>
      (\<forall>i < length (var_ids (outputs self)).
         fo ! (var_ids (outputs self) ! i) = VarBase (out_vars ! i)) \<and>
      (\<forall>j < length fo. j \<notin> set (var_ids (outputs self))
         \<longrightarrow> fo ! j = tolist (outputs self) ! j) \<and>
      (\<forall>j < length fo. (j \<in> set (var_ids (outputs self)))
         = is_var (tolist (outputs self) ! j)) \<and>
      restore (outputs self) fo = Inr (PySeq k ys) \<and>
      same_shape (PySeq k xs) (PySeq k ys) \<and> flatten (PySeq k ys) = fo \<and>
      restore_out env self out_vars = Inr (if length xs = 1 then hd ys else PySeq k ys)"
    by blast
qed

lemma ex_restore_out:
  "restore_out ex_env ex_layer_built [ex_tensor ''y'' [7]] = Inr (VarBase (ex_tensor ''y'' [7]))"
  by (simp add: restore_out_def ex_built_fields ex_layer_lists restore_def
      pack_sequence_as_def py_len_def py_getitem0_def)
    (simp add: ex_layer_def NestSequence_def py_len_def py_getitem0_def)

lemma ex_forward:
  "forward ex_env ex_layer ex_input = (Inr (VarBase (ex_tensor ''y'' [7])), ex_layer_built)"
proof -
  have "trace_op ex_env args = Inr (\<lambda>i. ex_tensor ''y'' [7])" for args
    by (simp add: ex_env_def)
  moreover have "remove_no_value (MAGIC_NUM ex_env) (VarBase (ex_tensor ''y'' [7]))
      = Inr (VarBase (ex_tensor ''y'' [7]))"
    by (simp add: remove_no_value_def is_no_value_def ex_env_def ex_tensor_def)
  ultimately show ?thesis
    by (simp add: forward_def ex_prepare ex_trace_op_args ex_restore_out)
qed

theorem restore_out_structure_witness:
  "outputs (ex_layer\<lparr>outputs := NestSequence (PySeq Tuple [Variable (ex_var ''y'' False), Opaque ''c''])\<rparr>)
     = NestSequence (PySeq Tuple [Variable (ex_var ''y'' False), Opaque ''c'']) \<and>
   length [ex_tensor ''y'' [7]]
     = length (var_ids (outputs (ex_layer\<lparr>outputs :=
         NestSequence (PySeq Tuple [Variable (ex_var ''y'' False), Opaque ''c''])\<rparr>))) \<and>
   restore_out ex_env
     (ex_layer\<lparr>outputs := NestSequence (PySeq Tuple [Variable (ex_var ''y'' False), Opaque ''c''])\<rparr>)
     [ex_tensor ''y'' [7]]
     = Inr (PySeq Tuple [VarBase (ex_tensor ''y'' [7]), Opaque ''c'']) \<and>
   same_shape (PySeq Tuple [Variable (ex_var ''y'' False), Opaque ''c''])
     (PySeq Tuple [VarBase (ex_tensor ''y'' [7]), Opaque ''c''])"
proof -
  let ?t = "PySeq Tuple [Variable (ex_var ''y'' False), Opaque ''c''] :: int pyval"
  let ?s = "ex_layer\<lparr>outputs := NestSequence ?t\<rparr>"
  have h: "outputs ?s = NestSequence ?t \<and> length [ex_tensor ''y'' [7]] = length (var_ids (outputs ?s))"
    by (simp add: NestSequence_def get_var_ids_def is_var_def)
  from restore_out_structure[where self = ?s and k = Tuple
      and xs = "[Variable (ex_var ''y'' False), Opaque ''c'']"
      and out_vars = "[ex_tensor ''y'' [7]]" and env = ex_env] h
  obtain fo ys where
    l: "length fo = length (tolist (outputs ?s))"
    and a: "\<forall>i < length (var_ids (outputs ?s)). fo ! (var_ids (outputs ?s) ! i)
              = VarBase ([ex_tensor ''y'' [7]] ! i)"
    and b: "\<forall>j < length fo. j \<notin> set (var_ids (outputs ?s)) \<longrightarrow> fo ! j = tolist (outputs ?s) ! j"
    and f: "flatten (PySeq Tuple ys) = fo"
    and sh: "same_shape ?t (PySeq Tuple ys)"
    and r: "restore_out ex_env ?s [ex_tensor ''y'' [7]]
        = Inr (if length [Variable (ex_var ''y'' False), Opaque ''c'' :: int pyval] = 1
               then hd ys else PySeq Tuple ys)"
    by blast
  have ids: "var_ids (outputs ?s) = [0]" and ls: "tolist (outputs ?s) = [Variable (ex_var ''y'' False), Opaque ''c'']"
    by (simp_all add: NestSequence_def get_var_ids_def is_var_def tolist_def)
  from l ls have l2: "length fo = 2" by simp
  from a ids have f0: "fo ! 0 = VarBase (ex_tensor ''y'' [7])" by simp
  from b ids ls l2 have f1: "fo ! 1 = Opaque ''c''" by simp
  from l2 f0 f1 have fo: "fo = [VarBase (ex_tensor ''y'' [7]), Opaque ''c'']"
    by (cases fo; cases "tl fo") auto
  from sh obtain y1 y2 where ys: "ys = [y1, y2]" "\<not> is_sequence y1" "\<not> is_sequence y2"
    by (auto split: list.splits)
  with f fo have "ys = [VarBase (ex_tensor ''y'' [7]), Opaque ''c'']"
    by (simp add: leaf_flatten)
  with r h show ?thesis by simp
qed

theorem single_output_unwrapped_counterexample:
  "raw_input (outputs ex_layer) = PySeq List [Variable (ex_var ''y'' False)] \<and>
   forward ex_env ex_layer ex_input = (Inr (VarBase (ex_tensor ''y'' [7])), ex_layer_built) \<and>
   restore_out ex_env ex_layer_built [ex_tensor ''y'' [7]] = Inr (VarBase (ex_tensor ''y'' [7])) \<and>
   \<not> is_sentinel (MAGIC_NUM ex_env) (VarBase (ex_tensor ''y'' [7])) \<and>
   \<not> same_shape (PySeq List [Variable (ex_var ''y'' False)]) (VarBase (ex_tensor ''y'' [7]))"
  using ex_forward ex_restore_out
  by (simp add: ex_layer_def NestSequence_def is_sentinel_def ex_env_def ex_tensor_def)


end
